theory Spec2Isabelle
  imports Main "HOL-Library.Sublist"
begin

section \<open>Strings\<close>

text \<open>
  Python strings are modelled as lists of 8-bit characters (code points below 256).
  On that range \<open>str.lower\<close> maps \<open>A\<close>..\<open>Z\<close> and the upper-case letters of the
  Latin-1 block (192..222 without the multiplication sign 215) to the character 32
  places later and leaves every other character alone.
\<close>

definition lower_char :: "char \<Rightarrow> char" where
  "lower_char c =
     (let n = (of_char c :: nat)
      in if (65 \<le> n \<and> n \<le> 90) \<or> (192 \<le> n \<and> n \<le> 222 \<and> n \<noteq> 215)
         then char_of (n + 32) else c)"

definition lower :: "string \<Rightarrow> string" where
  "lower s = map lower_char s"

text \<open>\<open>w in s\<close> on strings: \<open>w\<close> starts at some position of \<open>s\<close>.\<close>

fun py_in :: "string \<Rightarrow> string \<Rightarrow> bool" where
  "py_in w [] = (w = [])"
| "py_in w (c # cs) = (prefix w (c # cs) \<or> py_in w cs)"

text \<open>\<open>any(word in s for word in ws)\<close>\<close>

definition any_in :: "string list \<Rightarrow> string \<Rightarrow> bool" where
  "any_in ws s = list_ex (\<lambda>word. py_in word s) ws"

section \<open>Triage rules\<close>

text \<open>\<open>TriageAgent._determine_urgency\<close>\<close>

definition determine_urgency :: "string \<Rightarrow> string" where
  "determine_urgency description =
     (let description_lower = lower description
      in if any_in [''emergency'', ''urgent'', ''critical'', ''severe'', ''life-threatening'']
              description_lower
         then ''critical''
         else if any_in [''pain'', ''injury'', ''bleeding'', ''fever''] description_lower
         then ''high''
         else if any_in [''appointment'', ''consultation'', ''check-up''] description_lower
         then ''medium''
         else ''low'')"

text \<open>\<open>TriageAgent._determine_service_type\<close>\<close>

definition determine_service_type :: "string \<Rightarrow> string" where
  "determine_service_type description =
     (let description_lower = lower description
      in if any_in [''medical'', ''doctor'', ''hospital'', ''health'', ''pain'', ''injury'']
              description_lower
         then ''medical''
         else if any_in [''emergency'', ''police'', ''fire'', ''ambulance''] description_lower
         then ''emergency''
         else if any_in [''social'', ''welfare'', ''benefits'', ''housing''] description_lower
         then ''social''
         else ''administrative'')"

text \<open>\<open>TriageAgent._estimate_duration\<close>\<close>

definition estimate_duration :: "string \<Rightarrow> string \<Rightarrow> int" where
  "estimate_duration description urgency =
     (if urgency = ''critical'' then 60
      else if urgency = ''high'' then 45
      else if urgency = ''medium'' then 30
      else 15)"

section \<open>Exceptions, enumerations and text\<close>

datatype exn =
  TypeError string | ValueError string | KeyError string | AttributeError string
| OverflowError string

definition quoted :: "string \<Rightarrow> string" where
  "quoted s = CHR 0x27 # s @ [CHR 0x27]"

text \<open>\<open>str(e)\<close>: the message, and for a \<open>KeyError\<close> the quoted key.\<close>

fun str_exn :: "exn \<Rightarrow> string" where
  "str_exn (TypeError m) = m"
| "str_exn (ValueError m) = m"
| "str_exn (KeyError k) = quoted k"
| "str_exn (AttributeError m) = m"
| "str_exn (OverflowError m) = m"

datatype UrgencyLevel = LOW | MEDIUM | HIGH | CRITICAL

datatype CaseStatus =
  SUBMITTED | TRIAGED | ASSIGNED | SCHEDULED | IN_PROGRESS | COMPLETED | CANCELLED

datatype ServiceType = MEDICAL | EMERGENCY | SOCIAL | ADMINISTRATIVE

text \<open>\<open>UrgencyLevel(v)\<close> and \<open>ServiceType(v)\<close>: lookup by value, \<open>ValueError\<close> otherwise.\<close>

definition UrgencyLevel_of :: "string \<Rightarrow> exn + UrgencyLevel" where
  "UrgencyLevel_of v =
     (if v = ''low'' then Inr LOW
      else if v = ''medium'' then Inr MEDIUM
      else if v = ''high'' then Inr HIGH
      else if v = ''critical'' then Inr CRITICAL
      else Inl (ValueError (quoted v @ '' is not a valid UrgencyLevel'')))"

definition ServiceType_of :: "string \<Rightarrow> exn + ServiceType" where
  "ServiceType_of v =
     (if v = ''medical'' then Inr MEDICAL
      else if v = ''emergency'' then Inr EMERGENCY
      else if v = ''social'' then Inr SOCIAL
      else if v = ''administrative'' then Inr ADMINISTRATIVE
      else Inl (ValueError (quoted v @ '' is not a valid ServiceType'')))"

fun CaseStatus_value :: "CaseStatus \<Rightarrow> string" where
  "CaseStatus_value SUBMITTED = ''submitted''"
| "CaseStatus_value TRIAGED = ''triaged''"
| "CaseStatus_value ASSIGNED = ''assigned''"
| "CaseStatus_value SCHEDULED = ''scheduled''"
| "CaseStatus_value IN_PROGRESS = ''in_progress''"
| "CaseStatus_value COMPLETED = ''completed''"
| "CaseStatus_value CANCELLED = ''cancelled''"

text \<open>
  Instants (\<open>datetime\<close>) are microseconds on the UTC time line. What the datetime
  library prints stays symbolic: an f-string value is the list of the pieces an f-string puts
  together, where \<open>Strftime t f\<close> stands for \<open>t.strftime(f)\<close>, \<open>Isoformat t\<close> for
  \<open>t.isoformat()\<close>, \<open>Num n\<close> for the decimal form of an integer and \<open>Glyph cs\<close> for
  characters above the 8-bit range, given by their code points.
\<close>

datatype piece = Lit string | Num int | Strftime int string | Isoformat int | Glyph "nat list"

type_synonym fstring = "piece list"

text \<open>\<open>datetime.fromisoformat\<close> reads back what \<open>isoformat\<close> printed.\<close>

fun fromisoformat :: "fstring \<Rightarrow> exn + int" where
  "fromisoformat [Isoformat t] = Inr t"
| "fromisoformat _ = Inl (ValueError ''Invalid isoformat string'')"

text \<open>A nullable string inside an f-string: \<open>None\<close> prints as \<open>None\<close>.\<close>

fun str_opt :: "string option \<Rightarrow> string" where
  "str_opt None = ''None''"
| "str_opt (Some s) = s"

definition usec_per_second :: int where
  "usec_per_second = 1000000"

definition usec_per_hour :: int where
  "usec_per_hour = 3600000000"

definition usec_per_day :: int where
  "usec_per_day = 24 * usec_per_hour"

text \<open>\<open>t.date()\<close>, as the instant of that day's midnight.\<close>

definition date_of :: "int \<Rightarrow> int" where
  "date_of t = t - t mod usec_per_day"

section \<open>Database\<close>

text \<open>
  One list per table, in storage order; \<open>query.first()\<close> is the first matching row and
  \<open>query.all()\<close> the matching rows in that order. Columns that no handler reads or
  writes are left out. A column declared with a default always holds a value; the
  other nullable columns are options.

  The database has a clock of its own: \<open>current_timestamp\<close> is what \<open>func.now()\<close> gives
  as a server default, in whole seconds on the UTC time line.

  An SQLite INTEGER has 64 bits. A query that compares a column with a Python integer
  outside that range raises \<open>OverflowError\<close>; the ids of stored rows are inside it.
\<close>

definition sqlite_integer :: "int \<Rightarrow> bool" where
  "sqlite_integer i = (- (2 ^ 63) \<le> i \<and> i < 2 ^ 63)"

record Citizen =
  cz_id :: int
  cz_name :: string
  cz_email :: "string option"
  cz_phone :: "string option"
  cz_address :: "string option"

record Service =
  sv_id :: int
  sv_name :: string
  sv_type :: ServiceType
  sv_department :: "string option"
  sv_location :: "string option"
  sv_contact_info :: "string option"
  sv_is_emergency :: bool

record Case =
  cs_id :: int
  cs_citizen_id :: int
  cs_description :: string
  cs_urgency :: UrgencyLevel
  cs_status :: CaseStatus
  cs_assigned_service_id :: "int option"
  cs_triage_notes :: "string option"
  cs_estimated_duration :: "int option"

record Appointment =
  ap_case_id :: int
  ap_service_id :: "int option"
  ap_scheduled_time :: int
  ap_duration_minutes :: int
  ap_confirmation_sent :: bool
  ap_reminder_sent :: bool
  ap_notes :: string

record CaseUpdate =
  cu_case_id :: int
  cu_message :: fstring
  cu_update_type :: string
  cu_agent_type :: string

record SystemMetrics =
  sm_service_id :: "int option"
  sm_date :: int
  sm_demand_count :: int

record db =
  citizens :: "Citizen list"
  services :: "Service list"
  cases :: "Case list"
  appointments :: "Appointment list"
  case_updates :: "CaseUpdate list"
  system_metrics :: "SystemMetrics list"
  current_timestamp :: int

text \<open>Assigning to attributes of the row that \<open>first()\<close> returned.\<close>

fun update_first :: "('a \<Rightarrow> bool) \<Rightarrow> ('a \<Rightarrow> 'a) \<Rightarrow> 'a list \<Rightarrow> 'a list" where
  "update_first P f [] = []"
| "update_first P f (x # xs) = (if P x then f x # xs else x # update_first P f xs)"

section \<open>Agent state\<close>

record citizen_info =
  ci_name :: string
  ci_email :: "string option"
  ci_phone :: "string option"
  ci_address :: "string option"

record appointment_info =
  ai_service_name :: string
  ai_location :: "string option"
  ai_scheduled_time :: fstring
  ai_duration :: int
  ai_contact :: "string option"

text \<open>The payload each stage stores under its name in \<open>agent_outputs\<close>.\<close>

datatype stage_output =
  TriageOutput string string int string
| GuidanceOutput string "string option" "string option" "string option"
| BookingOutput appointment_info
| FollowupOutput fstring bool
| EquityOutput bool fstring

datatype message = HumanMessage fstring | AIMessage fstring

fun content :: "message \<Rightarrow> fstring" where
  "content (HumanMessage t) = t"
| "content (AIMessage t) = t"

record AgentState =
  case_id :: int
  citizen_data :: citizen_info
  case_description :: string
  urgency_level :: string
  assigned_service_id :: "int option"
  appointment_details :: "appointment_info option"
  messages :: "message list"
  agent_outputs :: "(string \<times> stage_output) list"
  current_status :: string
  error_message :: "string option"
  offline_mode :: bool

text \<open>\<open>d[k] = v\<close> on a dictionary kept as an association list in insertion order.\<close>

fun dict_set :: "'k \<Rightarrow> 'v \<Rightarrow> ('k \<times> 'v) list \<Rightarrow> ('k \<times> 'v) list" where
  "dict_set k v [] = [(k, v)]"
| "dict_set k v ((k', v') # kvs) =
     (if k' = k then (k, v) # kvs else (k', v') # dict_set k v kvs)"

text \<open>\<open>state["agent_outputs"]["triage"][field]\<close> for the two fields that are read.\<close>

definition triage_service_type :: "AgentState \<Rightarrow> exn + string" where
  "triage_service_type state =
     (case map_of (agent_outputs state) ''triage'' of
        None \<Rightarrow> Inl (KeyError ''triage'')
      | Some (TriageOutput urgency service_type estimated_duration notes) \<Rightarrow> Inr service_type
      | Some _ \<Rightarrow> Inl (KeyError ''service_type''))"

definition triage_estimated_duration :: "AgentState \<Rightarrow> exn + int" where
  "triage_estimated_duration state =
     (case map_of (agent_outputs state) ''triage'' of
        None \<Rightarrow> Inl (KeyError ''triage'')
      | Some (TriageOutput urgency service_type estimated_duration notes) \<Rightarrow>
          Inr estimated_duration
      | Some _ \<Rightarrow> Inl (KeyError ''estimated_duration''))"

section \<open>Stage handlers\<close>

text \<open>
  A handler takes the database and the state and returns the committed database with
  the state it hands back, or the exception it raised; a handler that raises has
  committed nothing.
\<close>

text \<open>\<open>TriageAgent.analyze_case\<close>\<close>

definition analyze_case :: "db \<Rightarrow> AgentState \<Rightarrow> exn + db \<times> AgentState" where
  "analyze_case db_session state =
     (case find (\<lambda>c. cs_id c = case_id state) (cases db_session) of
        None \<Rightarrow> Inr (db_session, state\<lparr>error_message := Some ''Case not found''\<rparr>)
      | Some case_row \<Rightarrow>
          let urgency = determine_urgency (case_description state);
              service_type = determine_service_type (case_description state);
              estimated_duration = estimate_duration (case_description state) urgency
          in case UrgencyLevel_of urgency of
               Inl e \<Rightarrow> Inl e
             | Inr level \<Rightarrow>
                 let triage_notes =
                       ''Automated triage: '' @ urgency @ '' priority, '' @ service_type
                         @ '' service needed'';
                     update =
                       \<lparr>cu_case_id = case_id state,
                        cu_message =
                          [Lit (''Case triaged as '' @ urgency @ '' priority requiring ''
                                  @ service_type @ '' service'')],
                        cu_update_type = ''triage'',
                        cu_agent_type = ''triage''\<rparr>
                 in Inr
                      (db_session
                         \<lparr>cases :=
                            update_first (\<lambda>c. cs_id c = case_id state)
                              (\<lambda>c. c\<lparr>cs_urgency := level,
                                      cs_status := TRIAGED,
                                      cs_triage_notes := Some triage_notes,
                                      cs_estimated_duration := Some estimated_duration\<rparr>)
                              (cases db_session),
                          case_updates := case_updates db_session @ [update]\<rparr>,
                       state
                         \<lparr>urgency_level := urgency,
                          current_status := ''triaged'',
                          agent_outputs :=
                            dict_set ''triage''
                              (TriageOutput urgency service_type estimated_duration triage_notes)
                              (agent_outputs state),
                          messages :=
                            messages state
                              @ [AIMessage
                                   [Lit (''Triage completed: '' @ urgency
                                           @ '' priority case requiring '' @ service_type
                                           @ '' service'')]]\<rparr>))"

text \<open>The rows the query of \<open>GuidanceAgent.match_service\<close> returns.\<close>

definition matching_services :: "db \<Rightarrow> string \<Rightarrow> ServiceType \<Rightarrow> Service list" where
  "matching_services db_session urgency ty =
     (let query = filter (\<lambda>s. sv_type s = ty) (services db_session)
      in if urgency = ''critical'' \<or> urgency = ''high''
         then filter (\<lambda>s. sv_is_emergency s) query
         else query)"

text \<open>\<open>GuidanceAgent.match_service\<close>\<close>

definition match_service :: "db \<Rightarrow> AgentState \<Rightarrow> exn + db \<times> AgentState" where
  "match_service db_session state =
     (let urgency = urgency_level state
      in case triage_service_type state of
           Inl e \<Rightarrow> Inl e
         | Inr service_type \<Rightarrow>
             (case ServiceType_of service_type of
                Inl e \<Rightarrow> Inl e
              | Inr ty \<Rightarrow>
                  (case matching_services db_session urgency ty of
                     [] \<Rightarrow>
                       Inr (db_session,
                            state\<lparr>error_message :=
                                    Some (''No available services for '' @ service_type)\<rparr>)
                   | selected_service # others \<Rightarrow>
                       (case find (\<lambda>c. cs_id c = case_id state) (cases db_session) of
                          None \<Rightarrow>
                            Inl (AttributeError
                                   (quoted ''NoneType''
                                      @ '' object has no attribute ''
                                      @ quoted ''assigned_service_id''))
                        | Some case_row \<Rightarrow>
                            let update =
                                  \<lparr>cu_case_id = case_id state,
                                   cu_message =
                                     [Lit (''Case assigned to '' @ sv_name selected_service
                                             @ '' at ''
                                             @ str_opt (sv_location selected_service))],
                                   cu_update_type = ''assignment'',
                                   cu_agent_type = ''guidance''\<rparr>
                            in Inr
                                 (db_session
                                    \<lparr>cases :=
                                       update_first (\<lambda>c. cs_id c = case_id state)
                                         (\<lambda>c. c\<lparr>cs_assigned_service_id :=
                                                   Some (sv_id selected_service),
                                                 cs_status := ASSIGNED\<rparr>)
                                         (cases db_session),
                                     case_updates := case_updates db_session @ [update]\<rparr>,
                                  state
                                    \<lparr>assigned_service_id := Some (sv_id selected_service),
                                     current_status := ''assigned'',
                                     agent_outputs :=
                                       dict_set ''guidance''
                                         (GuidanceOutput (sv_name selected_service)
                                            (sv_location selected_service)
                                            (sv_contact_info selected_service)
                                            (sv_department selected_service))
                                         (agent_outputs state),
                                     messages :=
                                       messages state
                                         @ [AIMessage
                                              [Lit (''Case assigned to ''
                                                      @ sv_name selected_service @ '' in ''
                                                      @ str_opt
                                                          (sv_department
                                                             selected_service))]]\<rparr>)))))"

text \<open>\<open>BookingAgent._find_next_slot\<close>, with the clock reading \<open>now\<close>.\<close>

definition find_next_slot :: "int \<Rightarrow> Service \<Rightarrow> string \<Rightarrow> int" where
  "find_next_slot now service urgency =
     (if urgency = ''critical'' then now + 1 * usec_per_hour
      else if urgency = ''high'' then now + 4 * usec_per_hour
      else if urgency = ''medium'' then now + 1 * usec_per_day
      else now + 3 * usec_per_day)"

text \<open>
  \<open>BookingAgent.book_appointment\<close>. A state without assigned service compares the key
  with \<open>None\<close>, which no row satisfies.
\<close>

definition book_appointment :: "int \<Rightarrow> db \<Rightarrow> AgentState \<Rightarrow> exn + db \<times> AgentState" where
  "book_appointment now db_session state =
     (let service_id = assigned_service_id state;
          urgency = urgency_level state
      in case triage_estimated_duration state of
           Inl e \<Rightarrow> Inl e
         | Inr estimated_duration \<Rightarrow>
             (case (case service_id of
                      None \<Rightarrow> None
                    | Some i \<Rightarrow> find (\<lambda>s. sv_id s = i) (services db_session)) of
                None \<Rightarrow>
                  Inr (db_session, state\<lparr>error_message := Some ''Service not found''\<rparr>)
              | Some service \<Rightarrow>
                  let scheduled_time = find_next_slot now service urgency;
                      appointment =
                        \<lparr>ap_case_id = case_id state,
                         ap_service_id = service_id,
                         ap_scheduled_time = scheduled_time,
                         ap_duration_minutes = estimated_duration,
                         ap_confirmation_sent = False,
                         ap_reminder_sent = False,
                         ap_notes = ''Auto-booked '' @ urgency @ '' priority appointment''\<rparr>
                  in case find (\<lambda>c. cs_id c = case_id state) (cases db_session) of
                       None \<Rightarrow>
                         Inl (AttributeError
                                (quoted ''NoneType'' @ '' object has no attribute ''
                                   @ quoted ''status''))
                     | Some case_row \<Rightarrow>
                         let update =
                               \<lparr>cu_case_id = case_id state,
                                cu_message =
                                  [Lit ''Appointment scheduled for '',
                                   Strftime scheduled_time ''%Y-%m-%d %H:%M'',
                                   Lit ('' at '' @ sv_name service)],
                                cu_update_type = ''booking'',
                                cu_agent_type = ''booking''\<rparr>;
                             details =
                               \<lparr>ai_service_name = sv_name service,
                                ai_location = sv_location service,
                                ai_scheduled_time = [Isoformat scheduled_time],
                                ai_duration = estimated_duration,
                                ai_contact = sv_contact_info service\<rparr>
                         in Inr
                              (db_session
                                 \<lparr>appointments := appointments db_session @ [appointment],
                                  cases :=
                                    update_first (\<lambda>c. cs_id c = case_id state)
                                      (\<lambda>c. c\<lparr>cs_status := SCHEDULED\<rparr>) (cases db_session),
                                  case_updates := case_updates db_session @ [update]\<rparr>,
                               state
                                 \<lparr>appointment_details := Some details,
                                  current_status := ''scheduled'',
                                  agent_outputs :=
                                    dict_set ''booking'' (BookingOutput details)
                                      (agent_outputs state),
                                  messages :=
                                    messages state
                                      @ [AIMessage
                                           [Lit ''Appointment booked for '',
                                            Strftime scheduled_time
                                              ''%B %d, %Y at %I:%M %p'']]\<rparr>)))"

text \<open>
  \<open>FollowUpAgent._generate_confirmation_message\<close>. Subscripting an appointment that is
  \<open>None\<close> raises \<open>TypeError\<close>.
\<close>

definition generate_confirmation_message ::
  "appointment_info option \<Rightarrow> citizen_info \<Rightarrow> exn + fstring" where
  "generate_confirmation_message appointment citizen =
     (case appointment of
        None \<Rightarrow> Inl (TypeError (quoted ''NoneType'' @ '' object is not subscriptable''))
      | Some a \<Rightarrow>
          (case fromisoformat (ai_scheduled_time a) of
             Inl e \<Rightarrow> Inl e
           | Inr scheduled_time \<Rightarrow>
               Inr [Lit (''\<newline>        Hello '' @ ci_name citizen
                          @ '',\<newline>        \<newline>''
                          @ ''        Your appointment has been successfully booked:\<newline>''
                          @ ''        \<newline>        ''),
                    Glyph [0xF0, 0x178, 0x201C, 0x2026],
                    Lit '' Date & Time: '',
                    Strftime scheduled_time ''%A, %B %d, %Y at %I:%M %p'',
                    Lit ''\<newline>        '',
                    Glyph [0xF0, 0x178, 0xA5],
                    Lit ('' Location: '' @ ai_service_name a @ '' - ''
                          @ str_opt (ai_location a) @ ''\<newline>        ''),
                    Glyph [0xE2, 0xB1, 0xEF, 0xB8],
                    Lit '' Duration: '',
                    Num (ai_duration a),
                    Lit '' minutes\<newline>        '',
                    Glyph [0xF0, 0x178, 0x201C, 0x17E],
                    Lit ('' Contact: '' @ str_opt (ai_contact a)
                          @ ''\<newline>        \<newline>''
                          @ ''        Please bring:\<newline>''
                          @ ''        - Valid ID card\<newline>''
                          @ ''        - Any relevant medical documents\<newline>''
                          @ ''        - Insurance information (if applicable)\<newline>''
                          @ ''        \<newline>''
                          @ ''        If you need to reschedule, please contact us at least 2 hours in advance.\<newline>''
                          @ ''        \<newline>''
                          @ ''        Thank you for using our service!\<newline>''
                          @ ''        '')]))"

text \<open>\<open>FollowUpAgent.send_confirmation\<close>\<close>

definition send_confirmation :: "db \<Rightarrow> AgentState \<Rightarrow> exn + db \<times> AgentState" where
  "send_confirmation db_session state =
     (case generate_confirmation_message (appointment_details state) (citizen_data state) of
        Inl e \<Rightarrow> Inl e
      | Inr confirmation_message \<Rightarrow>
          let update =
                \<lparr>cu_case_id = case_id state,
                 cu_message = [Lit ''Confirmation sent to citizen''],
                 cu_update_type = ''confirmation'',
                 cu_agent_type = ''follow_up''\<rparr>
          in Inr
               (db_session
                  \<lparr>appointments :=
                     update_first (\<lambda>a. ap_case_id a = case_id state)
                       (\<lambda>a. a\<lparr>ap_confirmation_sent := True\<rparr>) (appointments db_session),
                   case_updates := case_updates db_session @ [update]\<rparr>,
                state
                  \<lparr>agent_outputs :=
                     dict_set ''followup'' (FollowupOutput confirmation_message True)
                       (agent_outputs state),
                   messages :=
                     messages state
                       @ [AIMessage [Lit ''Confirmation message sent to citizen'']]\<rparr>))"

text \<open>
  \<open>EquityOversightAgent.track_metrics\<close>. \<open>if service_id\<close> is false for \<open>None\<close> and for
  0; the date of a metric row is compared with the midnight that begins today, by
  the clock of the program; a row is added without a date, and the server default
  dates it by the clock of the database.
\<close>

definition metric_matches :: "int option \<Rightarrow> int \<Rightarrow> SystemMetrics \<Rightarrow> bool" where
  "metric_matches service_id today m = (sm_service_id m = service_id \<and> today \<le> sm_date m)"

definition track_metrics :: "int \<Rightarrow> db \<Rightarrow> AgentState \<Rightarrow> exn + db \<times> AgentState" where
  "track_metrics now db_session state =
     (let service_id = assigned_service_id state;
          db_session' =
            (if service_id \<noteq> None \<and> service_id \<noteq> Some 0
             then let today = date_of now
                  in case find (metric_matches service_id today) (system_metrics db_session) of
                       None \<Rightarrow>
                         db_session
                           \<lparr>system_metrics :=
                              system_metrics db_session
                                @ [\<lparr>sm_service_id = service_id,
                                    sm_date = usec_per_second * current_timestamp db_session,
                                    sm_demand_count = 1\<rparr>]\<rparr>
                     | Some metric \<Rightarrow>
                         db_session
                           \<lparr>system_metrics :=
                              update_first (metric_matches service_id today)
                                (\<lambda>m. m\<lparr>sm_demand_count := sm_demand_count m + 1\<rparr>)
                                (system_metrics db_session)\<rparr>
             else db_session)
      in Inr (db_session',
              state\<lparr>agent_outputs :=
                      dict_set ''equity'' (EquityOutput True [Isoformat now])
                        (agent_outputs state)\<rparr>))"

section \<open>Workflow\<close>

text \<open>
  \<open>FrontlineAgentSystem._create_workflow\<close>: the entry point is \<open>triage\<close> and every node
  has one unconditional edge, so the compiled graph is the path below; each node's
  handler gets the state its predecessor returned.
\<close>

definition workflow :: "string list" where
  "workflow = [''triage'', ''guidance'', ''booking'', ''followup'', ''equity'']"

definition node :: "int \<Rightarrow> string \<Rightarrow> db \<Rightarrow> AgentState \<Rightarrow> exn + db \<times> AgentState" where
  "node now name db_session state =
     (if name = ''triage'' then analyze_case db_session state
      else if name = ''guidance'' then match_service db_session state
      else if name = ''booking'' then book_appointment now db_session state
      else if name = ''followup'' then send_confirmation db_session state
      else if name = ''equity'' then track_metrics now db_session state
      else Inl (KeyError name))"

text \<open>
  Running a path of nodes. The result names the nodes whose handlers were called, the
  database as last committed, and the final state or the exception that ended the run.
\<close>

fun run_nodes ::
  "int \<Rightarrow> string list \<Rightarrow> db \<Rightarrow> AgentState \<Rightarrow> string list \<times> db \<times> (exn + AgentState)" where
  "run_nodes now [] db_session state = ([], db_session, Inr state)"
| "run_nodes now (name # names) db_session state =
     (case node now name db_session state of
        Inl e \<Rightarrow> ([name], db_session, Inl e)
      | Inr (db_session', state') \<Rightarrow>
          (case run_nodes now names db_session' state' of
             (called, db_final, result) \<Rightarrow> (name # called, db_final, result)))"

definition ainvoke ::
  "int \<Rightarrow> db \<Rightarrow> AgentState \<Rightarrow> string list \<times> db \<times> (exn + AgentState)" where
  "ainvoke now db_session initial = run_nodes now workflow db_session initial"

section \<open>Processing a case\<close>

datatype pyval =
  PNone
| PBool bool
| PInt int
| PStr string
| PMessages "fstring list"
| POutputs "(string \<times> stage_output) list"
| PAppointment appointment_info
| PDict "(string \<times> pyval) list"

definition initial_state :: "Case \<Rightarrow> Citizen \<Rightarrow> int \<Rightarrow> bool \<Rightarrow> AgentState" where
  "initial_state case_row citizen cid offline =
     \<lparr>case_id = cid,
      citizen_data =
        \<lparr>ci_name = cz_name citizen, ci_email = cz_email citizen,
         ci_phone = cz_phone citizen, ci_address = cz_address citizen\<rparr>,
      case_description = cs_description case_row,
      urgency_level = [],
      assigned_service_id = None,
      appointment_details = None,
      messages = [HumanMessage [Lit (cs_description case_row)]],
      agent_outputs = [],
      current_status = CaseStatus_value (cs_status case_row),
      error_message = None,
      offline_mode = offline\<rparr>"

text \<open>
  \<open>FrontlineAgentSystem.process_case\<close>. The result is the list of the stage handlers
  that were called, the database afterwards, and the returned dictionary, or the
  exception that reaches the caller: the first query and reading the attributes of a
  citizen that is \<open>None\<close> happen before the \<open>try\<close>. The first query raises
  \<open>OverflowError\<close> for a case id that is no SQLite INTEGER; such an id is the id of
  no stored row.
\<close>

definition process_case ::
  "int \<Rightarrow> db \<Rightarrow> int \<Rightarrow> bool \<Rightarrow> string list \<times> db \<times> (exn + (string \<times> pyval) list)" where
  "process_case now db_session cid offline =
     (case find (\<lambda>c. cs_id c = cid) (cases db_session) of
        None \<Rightarrow>
          (if sqlite_integer cid
           then ([], db_session, Inr [(''error'', PStr ''Case not found'')])
           else ([], db_session,
                 Inl (OverflowError ''Python int too large to convert to SQLite INTEGER'')))
      | Some case_row \<Rightarrow>
          (case find (\<lambda>z. cz_id z = cs_citizen_id case_row) (citizens db_session) of
             None \<Rightarrow>
               ([], db_session,
                Inl (AttributeError
                       (quoted ''NoneType'' @ '' object has no attribute '' @ quoted ''name'')))
           | Some citizen \<Rightarrow>
               (case ainvoke now db_session (initial_state case_row citizen cid offline) of
                  (called, db_final, Inr final_state) \<Rightarrow>
                    (called, db_final,
                     Inr [(''success'', PBool True),
                          (''case_id'', PInt cid),
                          (''final_status'', PStr (current_status final_state)),
                          (''agent_outputs'', POutputs (agent_outputs final_state)),
                          (''appointment_details'',
                           (case appointment_details final_state of
                              None \<Rightarrow> PNone
                            | Some a \<Rightarrow> PAppointment a)),
                          (''messages'', PMessages (map content (messages final_state)))])
                | (called, db_final, Inl e) \<Rightarrow>
                    (called, db_final,
                     Inr [(''success'', PBool False),
                          (''error'', PStr (str_exn e)),
                          (''case_id'', PInt cid)]))))"

section \<open>Publishing case updates\<close>

text \<open>
  \<open>ConnectionManager\<close>. A WebSocket is known by a number; \<open>closed\<close> tells on which
  sockets \<open>send_text\<close> raises. What was delivered is kept as a list of socket and
  message.
\<close>

record ConnectionManager =
  active_connections :: "nat list"
  case_subscribers :: "(int \<times> nat list) list"

definition connect :: "ConnectionManager \<Rightarrow> nat \<Rightarrow> ConnectionManager" where
  "connect mgr websocket =
     mgr\<lparr>active_connections := active_connections mgr @ [websocket]\<rparr>"

definition disconnect :: "ConnectionManager \<Rightarrow> nat \<Rightarrow> ConnectionManager" where
  "disconnect mgr websocket =
     (if websocket \<in> set (active_connections mgr)
      then mgr\<lparr>active_connections := remove1 websocket (active_connections mgr)\<rparr>
      else mgr)"

definition subscribe_to_case :: "ConnectionManager \<Rightarrow> int \<Rightarrow> nat \<Rightarrow> ConnectionManager" where
  "subscribe_to_case mgr cid websocket =
     (case map_of (case_subscribers mgr) cid of
        None \<Rightarrow> mgr\<lparr>case_subscribers := dict_set cid [websocket] (case_subscribers mgr)\<rparr>
      | Some subscribers \<Rightarrow>
          mgr\<lparr>case_subscribers :=
                dict_set cid (subscribers @ [websocket]) (case_subscribers mgr)\<rparr>)"

text \<open>
  The loop of \<open>ConnectionManager.send_case_update\<close>. When \<open>send_text\<close> raises, the
  handler calls \<open>disconnect\<close>, which is not a coroutine and returns \<open>None\<close>, and then
  awaits that result: the \<open>TypeError\<close> of the \<open>await\<close> leaves the loop.
\<close>

fun send_to_all ::
  "(nat \<Rightarrow> bool) \<Rightarrow> pyval \<Rightarrow> nat list \<Rightarrow> ConnectionManager \<Rightarrow> (nat \<times> pyval) list
     \<Rightarrow> ConnectionManager \<times> (nat \<times> pyval) list \<times> exn option" where
  "send_to_all closed message [] mgr sent = (mgr, sent, None)"
| "send_to_all closed message (connection # rest) mgr sent =
     (if closed connection
      then (disconnect mgr connection, sent,
            Some (TypeError (''object NoneType can'' @ [CHR 0x27] @ ''t be used in ''
                               @ quoted ''await'' @ '' expression'')))
      else send_to_all closed message rest mgr (sent @ [(connection, message)]))"

text \<open>\<open>ConnectionManager.send_case_update\<close>\<close>

definition send_case_update ::
  "(nat \<Rightarrow> bool) \<Rightarrow> ConnectionManager \<Rightarrow> int \<Rightarrow> pyval
     \<Rightarrow> ConnectionManager \<times> (nat \<times> pyval) list \<times> exn option" where
  "send_case_update closed mgr cid message =
     (case map_of (case_subscribers mgr) cid of
        None \<Rightarrow> (mgr, [], None)
      | Some subscribers \<Rightarrow> send_to_all closed message subscribers mgr [])"

text \<open>
  \<open>process_case_async\<close>, the background task of a submission: the database and the
  manager afterwards, the deliveries, and the exception that leaves the task, if any.
\<close>

definition case_error ::
  "(nat \<Rightarrow> bool) \<Rightarrow> db \<Rightarrow> ConnectionManager \<Rightarrow> (nat \<times> pyval) list \<Rightarrow> int \<Rightarrow> exn
     \<Rightarrow> db \<times> ConnectionManager \<times> (nat \<times> pyval) list \<times> exn option" where
  "case_error closed db_session mgr sent cid e =
     (case send_case_update closed mgr cid
             (PDict [(''type'', PStr ''case_error''),
                     (''case_id'', PInt cid),
                     (''error'', PStr (str_exn e))]) of
        (mgr', sent', raised) \<Rightarrow> (db_session, mgr', sent @ sent', raised))"

definition process_case_async ::
  "int \<Rightarrow> (nat \<Rightarrow> bool) \<Rightarrow> db \<Rightarrow> ConnectionManager \<Rightarrow> int
     \<Rightarrow> db \<times> ConnectionManager \<times> (nat \<times> pyval) list \<times> exn option" where
  "process_case_async now closed db_session mgr cid =
     (case process_case now db_session cid False of
        (called, db_final, Inl e) \<Rightarrow> case_error closed db_final mgr [] cid e
      | (called, db_final, Inr result) \<Rightarrow>
          (case send_case_update closed mgr cid
                  (PDict [(''type'', PStr ''case_processed''),
                          (''case_id'', PInt cid),
                          (''result'', PDict result)]) of
             (mgr', sent, None) \<Rightarrow> (db_final, mgr', sent, None)
           | (mgr', sent, Some e) \<Rightarrow> case_error closed db_final mgr' sent cid e))"

section \<open>What the claims speak of\<close>

text \<open>
  A description contains a keyword, case-insensitively, when the keyword is a segment
  of the lower-cased description; \<open>contains_any\<close> says so for some keyword of a list.
\<close>

definition contains_any :: "string \<Rightarrow> string list \<Rightarrow> bool" where
  "contains_any description keywords =
     (\<exists>w \<in> set keywords. \<exists>before after. lower description = before @ w @ after)"

text \<open>A field of the dictionary \<open>process_case\<close> returned, if it returned one.\<close>

fun outcome_field :: "string \<Rightarrow> exn + (string \<times> pyval) list \<Rightarrow> pyval option" where
  "outcome_field k (Inl e) = None"
| "outcome_field k (Inr outcome) = map_of outcome k"

text \<open>The database after a handler call: a handler that raised has committed nothing.\<close>

fun committed :: "db \<Rightarrow> exn + db \<times> AgentState \<Rightarrow> db" where
  "committed db_session (Inl e) = db_session"
| "committed db_session (Inr (db', state')) = db'"

text \<open>
  The demand counter of a service for a day: the demand counts of the service's metric
  rows dated on that day. \<open>demand_since\<close> adds up the rows dated at or after an instant.
\<close>

definition demand_counter :: "db \<Rightarrow> int \<Rightarrow> int \<Rightarrow> int" where
  "demand_counter db_session sid day =
     sum_list (map sm_demand_count
       (filter (\<lambda>m. sm_service_id m = Some sid \<and> date_of (sm_date m) = day)
          (system_metrics db_session)))"

definition demand_since :: "db \<Rightarrow> int \<Rightarrow> int \<Rightarrow> int" where
  "demand_since db_session sid t =
     sum_list (map sm_demand_count
       (filter (\<lambda>m. sm_service_id m = Some sid \<and> t \<le> sm_date m)
          (system_metrics db_session)))"

text \<open>No metric row of the service is dated on a later day than \<open>day\<close>.\<close>

definition no_later_rows :: "db \<Rightarrow> int \<Rightarrow> int \<Rightarrow> bool" where
  "no_later_rows db_session sid day =
     list_all (\<lambda>m. sm_service_id m = Some sid \<longrightarrow> date_of (sm_date m) \<le> day)
       (system_metrics db_session)"

section \<open>Sample data\<close>

text \<open>
  A small database in the manner of the repository's sample data: a clinic and a
  social services office, neither flagged for emergencies, one citizen, three cases.
\<close>

definition sample_citizen :: Citizen where
  "sample_citizen =
     \<lparr>cz_id = 1, cz_name = ''John Doe'', cz_email = Some ''john.doe@example.com'',
      cz_phone = Some ''555-1001'', cz_address = Some ''123 Main St''\<rparr>"

definition sample_case :: "int \<Rightarrow> string \<Rightarrow> Case" where
  "sample_case i description =
     \<lparr>cs_id = i, cs_citizen_id = 1, cs_description = description, cs_urgency = MEDIUM,
      cs_status = SUBMITTED, cs_assigned_service_id = None, cs_triage_notes = None,
      cs_estimated_duration = None\<rparr>"

definition sample_db :: db where
  "sample_db =
     \<lparr>citizens = [sample_citizen],
      services =
        [\<lparr>sv_id = 2, sv_name = ''Community Health Clinic'', sv_type = MEDICAL,
          sv_department = Some ''General Practice'', sv_location = Some ''456 Community Ave'',
          sv_contact_info = Some ''555-0124'', sv_is_emergency = False\<rparr>,
         \<lparr>sv_id = 4, sv_name = ''Social Services Office'', sv_type = SOCIAL,
          sv_department = Some ''Social Welfare'', sv_location = Some ''321 Support St'',
          sv_contact_info = Some ''555-0125'', sv_is_emergency = False\<rparr>],
      cases =
        [sample_case 1 ''Urgent housing help'',
         sample_case 2 ''I need housing benefits'',
         sample_case 3 ''Fever and pain''],
      appointments = [],
      case_updates = [],
      system_metrics = [],
      current_timestamp = 0\<rparr>"

text \<open>What Triage commits and returns for case 1 of the sample.\<close>

definition triaged_db :: db where
  "triaged_db =
     sample_db
       \<lparr>cases :=
          [(sample_case 1 ''Urgent housing help'')
             \<lparr>cs_urgency := CRITICAL, cs_status := TRIAGED,
              cs_triage_notes :=
                Some ''Automated triage: critical priority, social service needed'',
              cs_estimated_duration := Some 60\<rparr>,
           sample_case 2 ''I need housing benefits'',
           sample_case 3 ''Fever and pain''],
        case_updates :=
          [\<lparr>cu_case_id = 1,
            cu_message = [Lit ''Case triaged as critical priority requiring social service''],
            cu_update_type = ''triage'', cu_agent_type = ''triage''\<rparr>]\<rparr>"

definition triaged_state :: AgentState where
  "triaged_state =
     (initial_state (sample_case 1 ''Urgent housing help'') sample_citizen 1 False)
       \<lparr>urgency_level := ''critical'',
        current_status := ''triaged'',
        agent_outputs :=
          [(''triage'',
            TriageOutput ''critical'' ''social'' 60
              ''Automated triage: critical priority, social service needed'')],
        messages :=
          [HumanMessage [Lit ''Urgent housing help''],
           AIMessage [Lit ''Triage completed: critical priority case requiring social service'']]\<rparr>"

text \<open>The same after Triage, with a social service that is flagged for emergencies.\<close>

definition crisis_db :: db where
  "crisis_db =
     triaged_db
       \<lparr>services :=
          services triaged_db
            @ [\<lparr>sv_id = 9, sv_name = ''Crisis Shelter'', sv_type = SOCIAL,
                sv_department = Some ''Social Welfare'', sv_location = Some ''9 Harbour Rd'',
                sv_contact_info = Some ''555-0199'', sv_is_emergency = True\<rparr>]\<rparr>"

text \<open>The run of case 2 of the sample, for which a service is found.\<close>

definition completed_run :: "string list \<times> db \<times> (exn + AgentState)" where
  "completed_run =
     ainvoke 0 sample_db
       (initial_state (sample_case 2 ''I need housing benefits'') sample_citizen 2 False)"

text \<open>
  Metric rows for the equity stage, with the clock of the database at the first second
  of day 1: service 7 has a row dated on day 2 and none dated on day 1, service 8 has
  two rows dated on day 1, service 5 has no row.
\<close>

definition metrics_db :: db where
  "metrics_db =
     sample_db
       \<lparr>system_metrics :=
          [\<lparr>sm_service_id = Some 7, sm_date = 2 * usec_per_day + 5, sm_demand_count = 5\<rparr>,
           \<lparr>sm_service_id = Some 8, sm_date = usec_per_day + 5, sm_demand_count = 5\<rparr>,
           \<lparr>sm_service_id = Some 8, sm_date = usec_per_day + 7, sm_demand_count = 3\<rparr>],
        current_timestamp := 86400\<rparr>"

text \<open>Two subscribers of case 1, of which socket 1 is closed.\<close>

definition sample_manager :: ConnectionManager where
  "sample_manager = \<lparr>active_connections = [1, 2], case_subscribers = [(1, [1, 2])]\<rparr>"

definition socket_1_closed :: "nat \<Rightarrow> bool" where
  "socket_1_closed websocket = (websocket = 1)"

section \<open>Substring tests\<close>

lemma py_in_sublist: "py_in w s \<longleftrightarrow> sublist w s"
  by (induction s) (simp_all add: sublist_Cons_right)

lemma any_in_sublist: "any_in ws s \<longleftrightarrow> (\<exists>w \<in> set ws. sublist w s)"
  by (simp add: any_in_def list_ex_iff py_in_sublist)

lemma contains_any_any_in: "contains_any d ws \<longleftrightarrow> any_in ws (lower d)"
  by (simp add: contains_any_def any_in_sublist sublist_def)

section \<open>Facts about the handlers and the engine\<close>

lemma UrgencyLevel_of_determine_urgency:
  "\<exists>level. UrgencyLevel_of (determine_urgency d) = Inr level"
  by (simp add: determine_urgency_def UrgencyLevel_of_def Let_def)

lemma map_of_dict_set:
  "map_of (dict_set k v kvs) k' = (if k' = k then Some v else map_of kvs k')"
  by (induction kvs) auto

lemma find_update_first:
  "(\<And>x. P x \<Longrightarrow> P (f x)) \<Longrightarrow> find P (update_first P f xs) = map_option f (find P xs)"
  by (induction xs) auto

lemma analyze_case_result:
  assumes "analyze_case db_session state = Inr (db', state')"
  shows "(db' = db_session \<and> state' = state\<lparr>error_message := Some ''Case not found''\<rparr>)
         \<or> (error_message state' = error_message state)"
  using assms
  by (auto simp: analyze_case_def Let_def split: option.splits sum.splits)

lemma match_service_result:
  assumes "match_service db_session state = Inr (db', state')"
  shows "(\<exists>service_type. db' = db_session \<and>
            state' = state\<lparr>error_message := Some (''No available services for '' @ service_type)\<rparr>)
         \<or> (assigned_service_id state' \<noteq> None \<and> error_message state' = error_message state)"
  using assms
  by (auto simp: match_service_def Let_def split: sum.splits list.splits option.splits)

lemma book_appointment_result:
  assumes "book_appointment now db_session state = Inr (db', state')"
  shows "(db' = db_session \<and> state' = state\<lparr>error_message := Some ''Service not found''\<rparr>)
         \<or> (current_status state' = ''scheduled'' \<and> error_message state' = error_message state)"
  using assms
  by (auto simp: book_appointment_def Let_def split: sum.splits option.splits)

lemma send_confirmation_result:
  assumes "send_confirmation db_session state = Inr (db', state')"
  shows "error_message state' = error_message state \<and> current_status state' = current_status state"
  using assms
  by (auto simp: send_confirmation_def Let_def split: sum.splits)

lemma track_metrics_result:
  assumes "track_metrics now db_session state = Inr (db', state')"
  shows "error_message state' = error_message state \<and> current_status state' = current_status state"
  using assms
  by (auto simp: track_metrics_def Let_def)

lemma node_sets_error:
  assumes "node now name db_session state = Inr (db', state')"
    and "error_message state' \<noteq> error_message state"
  shows "db' = db_session \<and> state' = state\<lparr>error_message := error_message state'\<rparr>"
proof -
  consider (t) "name = ''triage''" | (g) "name = ''guidance''" | (b) "name = ''booking''"
    | (f) "name = ''followup''" | (e) "name = ''equity''"
    | (other) "name \<notin> set workflow"
    by (auto simp: workflow_def)
  then show ?thesis
  proof cases
    case t
    with assms analyze_case_result [of db_session state db' state'] show ?thesis
      by (auto simp: node_def)
  next
    case g
    with assms match_service_result [of db_session state db' state'] show ?thesis
      by (auto simp: node_def)
  next
    case b
    with assms book_appointment_result [of now db_session state db' state'] show ?thesis
      by (auto simp: node_def)
  next
    case f
    with assms send_confirmation_result [of db_session state db' state'] show ?thesis
      by (auto simp: node_def)
  next
    case e
    with assms track_metrics_result [of now db_session state db' state'] show ?thesis
      by (auto simp: node_def)
  next
    case other
    with assms show ?thesis
      by (auto simp: node_def workflow_def)
  qed
qed

lemma run_nodes_next_called:
  assumes "node now name db_session state = Inr (db', state')"
  shows "take 2 (fst (run_nodes now (name # next_name # names) db_session state))
           = [name, next_name]"
  using assms by (simp split: sum.splits prod.splits)

lemma match_service_triage_output:
  assumes "match_service db_session state = Inr (db', state')"
  shows "\<exists>u s d n. map_of (agent_outputs state) ''triage'' = Some (TriageOutput u s d n)"
  using assms
  by (auto simp: match_service_def triage_service_type_def Let_def
      split: sum.splits option.splits stage_output.splits)

lemma analyze_case_frame:
  assumes "analyze_case db_session state = Inr (db', state')"
  shows "assigned_service_id state' = assigned_service_id state
         \<and> appointment_details state' = appointment_details state
         \<and> appointments db' = appointments db_session
         \<and> services db' = services db_session
         \<and> system_metrics db' = system_metrics db_session"
  using assms
  by (auto simp: analyze_case_def Let_def split: option.splits sum.splits)

lemma after_guidance_error:
  assumes "map_of (agent_outputs state) ''triage'' = Some (TriageOutput u s d n)"
    and "assigned_service_id state = None" and "appointment_details state = None"
  shows "run_nodes now [''booking'', ''followup'', ''equity''] db_session state
         = ([''booking'', ''followup''], db_session,
            Inl (TypeError (quoted ''NoneType'' @ '' object is not subscriptable'')))"
  using assms
  by (simp add: node_def book_appointment_def triage_estimated_duration_def
      send_confirmation_def generate_confirmation_message_def Let_def)

lemma completed_run_status:
  assumes "run_nodes now workflow db_session state = (called, db', Inr final)"
    and "error_message final = None"
  shows "called = workflow \<and> current_status final = ''scheduled''"
proof -
  from assms(1) obtain d2 s2 d3 s3 d4 s4
    where b: "book_appointment now d2 s2 = Inr (d3, s3)"
      and f: "send_confirmation d3 s3 = Inr (d4, s4)"
      and e: "track_metrics now d4 s4 = Inr (db', final)"
      and c: "called = workflow"
    by (auto simp: workflow_def node_def split: sum.splits prod.splits)
  from send_confirmation_result [OF f] track_metrics_result [OF e]
  have same: "error_message final = error_message s3" "current_status final = current_status s3"
    by simp_all
  from book_appointment_result [OF b] same assms(2)
  have "current_status s3 = ''scheduled''"
    by auto
  with same c show ?thesis
    by simp
qed

lemma run_nodes_raised:
  "run_nodes now names db_session state = (called, db', Inl e) \<Longrightarrow>
     called \<noteq> [] \<and> (\<exists>state_k. node now (last called) db' state_k = Inl e)"
proof (induction names arbitrary: db_session state called)
  case Nil
  then show ?case by simp
next
  case (Cons name names)
  show ?case
  proof (cases "node now name db_session state")
    case (Inl raised)
    with Cons.prems show ?thesis
      by auto
  next
    case (Inr committed_state)
    obtain db_next state_next where c: "committed_state = (db_next, state_next)"
      by (cases committed_state)
    obtain called_rest db_rest result
      where r: "run_nodes now names db_next state_next = (called_rest, db_rest, result)"
      by (cases "run_nodes now names db_next state_next")
    with Cons.prems Inr c have eq: "called = name # called_rest" "db' = db_rest" "result = Inl e"
      by simp_all
    from Cons.IH [of db_next state_next called_rest] r eq
    have "called_rest \<noteq> [] \<and> (\<exists>state_k. node now (last called_rest) db' state_k = Inl e)"
      by simp
    with eq show ?thesis
      by simp
  qed
qed

section \<open>Facts about dates and metric rows\<close>

lemma usec_per_day_pos: "0 < usec_per_day"
  by (simp add: usec_per_day_def usec_per_hour_def)

lemma date_of_le: "date_of t \<le> t"
  using usec_per_day_pos by (simp add: date_of_def)

lemma date_of_div: "date_of t = (t div usec_per_day) * usec_per_day"
  by (simp add: date_of_def minus_mod_eq_div_mult)

lemma date_of_same_day:
  "date_of now \<le> t \<Longrightarrow> date_of t \<le> date_of now \<Longrightarrow> date_of t = date_of now"
proof -
  assume a: "date_of now \<le> t" and b: "date_of t \<le> date_of now"
  from a have "date_of now div usec_per_day \<le> t div usec_per_day"
    by (rule zdiv_mono1) (rule usec_per_day_pos)
  moreover have "date_of now div usec_per_day = now div usec_per_day"
    using usec_per_day_pos by (simp add: date_of_div)
  ultimately have "date_of now \<le> date_of t"
    using usec_per_day_pos by (simp add: date_of_div)
  with b show ?thesis
    by simp
qed

lemma sum_list_update_first:
  fixes f :: "'a \<Rightarrow> int"
  assumes "\<And>x. P x \<Longrightarrow> P (g x)" and "\<And>x. P x \<Longrightarrow> f (g x) = f x + 1"
    and "find P xs = Some m"
  shows "sum_list (map f (filter P (update_first P g xs))) = sum_list (map f (filter P xs)) + 1"
  using assms(3)
  by (induction xs) (auto simp: assms(1,2))

lemma length_update_first: "length (update_first P g xs) = length xs"
  by (induction xs) auto

lemma list_all_update_first:
  "list_all Q xs \<Longrightarrow> (\<And>x. Q x \<Longrightarrow> Q (g x)) \<Longrightarrow> list_all Q (update_first P g xs)"
  by (induction xs) auto

lemma demand_counter_since:
  assumes "no_later_rows db_session sid (date_of now)"
  shows "demand_counter db_session sid (date_of now) = demand_since db_session sid (date_of now)"
proof -
  have "filter (\<lambda>m. sm_service_id m = Some sid \<and> date_of (sm_date m) = date_of now)
          (system_metrics db_session)
        = filter (\<lambda>m. sm_service_id m = Some sid \<and> date_of now \<le> sm_date m)
          (system_metrics db_session)"
  proof (rule filter_cong [OF refl])
    fix m assume "m \<in> set (system_metrics db_session)"
    with assms have later: "sm_service_id m = Some sid \<longrightarrow> date_of (sm_date m) \<le> date_of now"
      by (simp add: no_later_rows_def list_all_iff)
    show "(sm_service_id m = Some sid \<and> date_of (sm_date m) = date_of now)
          = (sm_service_id m = Some sid \<and> date_of now \<le> sm_date m)"
      using later date_of_same_day [of now "sm_date m"] date_of_le [of "sm_date m"]
      by auto
  qed
  then show ?thesis
    by (simp add: demand_counter_def demand_since_def)
qed

lemma update_first_split:
  "find P xs = Some m \<Longrightarrow>
     \<exists>before after. xs = before @ m # after \<and> P m \<and> (\<forall>x \<in> set before. \<not> P x)
       \<and> update_first P g xs = before @ g m # after"
proof (induction xs)
  case Nil
  then show ?case by simp
next
  case (Cons x xs)
  show ?case
  proof (cases "P x")
    case True
    with Cons.prems have "x = m"
      by simp
    with True have "x # xs = [] @ m # xs \<and> P m \<and> (\<forall>y \<in> set []. \<not> P y)
        \<and> update_first P g (x # xs) = [] @ g m # xs"
      by simp
    then show ?thesis
      by blast
  next
    case False
    with Cons.prems have "find P xs = Some m"
      by simp
    from Cons.IH [OF this] obtain before after
      where "xs = before @ m # after" "P m" "\<forall>y \<in> set before. \<not> P y"
        "update_first P g xs = before @ g m # after"
      by blast
    with False have "x # xs = (x # before) @ m # after \<and> P m
        \<and> (\<forall>y \<in> set (x # before). \<not> P y)
        \<and> update_first P g (x # xs) = (x # before) @ g m # after"
      by simp
    then show ?thesis
      by blast
  qed
qed

lemma find_metric_Some:
  "(\<exists>m \<in> set rows. sm_service_id m = Some sid \<and> today \<le> sm_date m)
     \<longleftrightarrow> (\<exists>m. find (metric_matches (Some sid) today) rows = Some m)"
  by (cases "find (metric_matches (Some sid) today) rows")
     (auto simp: find_None_iff find_Some_iff metric_matches_def)

lemma track_metrics_found:
  assumes "assigned_service_id state = Some sid" and "sid \<noteq> 0"
    and "find (metric_matches (Some sid) (date_of now)) (system_metrics db_session) = Some m"
  shows "track_metrics now db_session state
           = Inr (db_session
                    \<lparr>system_metrics :=
                       update_first (metric_matches (Some sid) (date_of now))
                         (\<lambda>m. m\<lparr>sm_demand_count := sm_demand_count m + 1\<rparr>)
                         (system_metrics db_session)\<rparr>,
                  state\<lparr>agent_outputs :=
                          dict_set ''equity'' (EquityOutput True [Isoformat now])
                            (agent_outputs state)\<rparr>)"
  using assms by (simp add: track_metrics_def Let_def)

lemma track_metrics_created:
  assumes "assigned_service_id state = Some sid" and "sid \<noteq> 0"
    and "find (metric_matches (Some sid) (date_of now)) (system_metrics db_session) = None"
  shows "track_metrics now db_session state
           = Inr (db_session
                    \<lparr>system_metrics :=
                       system_metrics db_session
                         @ [\<lparr>sm_service_id = Some sid,
                             sm_date = usec_per_second * current_timestamp db_session,
                             sm_demand_count = 1\<rparr>]\<rparr>,
                  state\<lparr>agent_outputs :=
                          dict_set ''equity'' (EquityOutput True [Isoformat now])
                            (agent_outputs state)\<rparr>)"
  using assms by (simp add: track_metrics_def Let_def)

lemma demand_since_incremented:
  assumes "find (metric_matches (Some sid) (date_of now)) (system_metrics db_session) = Some m"
  shows "demand_since
           (db_session
              \<lparr>system_metrics :=
                 update_first (metric_matches (Some sid) (date_of now))
                   (\<lambda>m. m\<lparr>sm_demand_count := sm_demand_count m + 1\<rparr>)
                   (system_metrics db_session)\<rparr>) sid (date_of now)
         = demand_since db_session sid (date_of now) + 1"
proof -
  from sum_list_update_first
         [where P = "metric_matches (Some sid) (date_of now)" and f = sm_demand_count
            and g = "\<lambda>m. m\<lparr>sm_demand_count := sm_demand_count m + 1\<rparr>", OF _ _ assms]
  have "sum_list (map sm_demand_count (filter (metric_matches (Some sid) (date_of now))
          (update_first (metric_matches (Some sid) (date_of now))
             (\<lambda>m. m\<lparr>sm_demand_count := sm_demand_count m + 1\<rparr>) (system_metrics db_session))))
        = sum_list (map sm_demand_count (filter (metric_matches (Some sid) (date_of now))
             (system_metrics db_session))) + 1"
    by (simp add: metric_matches_def)
  moreover have "metric_matches (Some sid) (date_of now)
      = (\<lambda>m. sm_service_id m = Some sid \<and> date_of now \<le> sm_date m)"
    by (simp add: metric_matches_def fun_eq_iff)
  ultimately show ?thesis
    by (simp add: demand_since_def)
qed

lemma demand_counter_incremented:
  assumes "find (metric_matches (Some sid) (date_of now)) (system_metrics db_session) = Some m"
    and "no_later_rows db_session sid (date_of now)"
  shows "demand_counter
           (db_session
              \<lparr>system_metrics :=
                 update_first (metric_matches (Some sid) (date_of now))
                   (\<lambda>m. m\<lparr>sm_demand_count := sm_demand_count m + 1\<rparr>)
                   (system_metrics db_session)\<rparr>) sid (date_of now)
         = demand_counter db_session sid (date_of now) + 1"
proof -
  let ?db = "db_session
              \<lparr>system_metrics :=
                 update_first (metric_matches (Some sid) (date_of now))
                   (\<lambda>m. m\<lparr>sm_demand_count := sm_demand_count m + 1\<rparr>)
                   (system_metrics db_session)\<rparr>"
  from assms(2) have "no_later_rows ?db sid (date_of now)"
    by (auto simp: no_later_rows_def intro!: list_all_update_first)
  from demand_counter_since [OF this] demand_counter_since [OF assms(2)]
    demand_since_incremented [OF assms(1)]
  show ?thesis
    by simp
qed

lemma demand_created:
  assumes "date_of (usec_per_second * current_timestamp db_session) = date_of now"
  shows "demand_since
           (db_session
              \<lparr>system_metrics :=
                 system_metrics db_session
                   @ [\<lparr>sm_service_id = Some sid,
                       sm_date = usec_per_second * current_timestamp db_session,
                       sm_demand_count = 1\<rparr>]\<rparr>) sid (date_of now)
         = demand_since db_session sid (date_of now) + 1
       \<and> demand_counter
           (db_session
              \<lparr>system_metrics :=
                 system_metrics db_session
                   @ [\<lparr>sm_service_id = Some sid,
                       sm_date = usec_per_second * current_timestamp db_session,
                       sm_demand_count = 1\<rparr>]\<rparr>) sid (date_of now)
         = demand_counter db_session sid (date_of now) + 1"
proof -
  from assms date_of_le [of "usec_per_second * current_timestamp db_session"]
  have "date_of now \<le> usec_per_second * current_timestamp db_session"
    by simp
  with assms show ?thesis
    by (simp add: demand_since_def demand_counter_def)
qed

section \<open>The sample runs\<close>

lemma triage_sample:
  "analyze_case sample_db (initial_state (sample_case 1 ''Urgent housing help'') sample_citizen 1 False)
     = Inr (triaged_db, triaged_state)"
  by code_simp

lemma guidance_sample:
  "match_service triaged_db triaged_state
     = Inr (triaged_db,
            triaged_state\<lparr>error_message := Some ''No available services for social''\<rparr>)"
  by code_simp

lemma failed_run_sample:
  "ainvoke 0 sample_db
       (initial_state (sample_case 1 ''Urgent housing help'') sample_citizen 1 False)
     = ([''triage'', ''guidance'', ''booking'', ''followup''], triaged_db,
        Inl (TypeError (quoted ''NoneType'' @ '' object is not subscriptable'')))"
proof -
  have rest: "run_nodes 0 [''booking'', ''followup'', ''equity''] triaged_db
       (triaged_state\<lparr>error_message := Some ''No available services for social''\<rparr>)
     = ([''booking'', ''followup''], triaged_db,
        Inl (TypeError (quoted ''NoneType'' @ '' object is not subscriptable'')))"
    by (rule after_guidance_error [of _ "''critical''" "''social''" 60
          "''Automated triage: critical priority, social service needed''"])
       (simp_all add: triaged_state_def initial_state_def)
  from triage_sample guidance_sample rest show ?thesis
    by (simp add: ainvoke_def workflow_def node_def)
qed

lemma find_sample_case_1:
  "find (\<lambda>c. cs_id c = 1) (cases sample_db) = Some (sample_case 1 ''Urgent housing help'')"
  by code_simp

lemma find_sample_citizen_1:
  "find (\<lambda>z. cz_id z = cs_citizen_id (sample_case 1 ''Urgent housing help''))
     (citizens sample_db) = Some sample_citizen"
  by code_simp

lemma completed_run_sample:
  "completed_run
     = (workflow, fst (snd completed_run), Inr (projr (snd (snd completed_run))))"
  by code_simp

lemma day_1: "date_of (usec_per_day + 10) = usec_per_day"
  by (simp add: date_of_def usec_per_day_def usec_per_hour_def)

lemma day_0: "date_of (usec_per_day - 1) = 0"
  by (simp add: date_of_def usec_per_day_def usec_per_hour_def)

section \<open>Urgency classification\<close>

text \<open>
  Claim C3. The urgency rule is first match wins in the order critical, high, medium,
  low over the lower-cased description: a description that contains one of
  "emergency", "urgent", "critical", "severe", "life-threatening" is critical whatever
  else it contains; otherwise one of "pain", "injury", "bleeding", "fever" makes it
  high; otherwise one of "appointment", "consultation", "check-up" makes it medium;
  otherwise it is low.
\<close>

theorem determine_urgency_first_match:
  "(contains_any d [''emergency'', ''urgent'', ''critical'', ''severe'', ''life-threatening'']
      \<longrightarrow> determine_urgency d = ''critical'') \<and>
   (\<not> contains_any d [''emergency'', ''urgent'', ''critical'', ''severe'', ''life-threatening'']
      \<and> contains_any d [''pain'', ''injury'', ''bleeding'', ''fever'']
      \<longrightarrow> determine_urgency d = ''high'') \<and>
   (\<not> contains_any d [''emergency'', ''urgent'', ''critical'', ''severe'', ''life-threatening'']
      \<and> \<not> contains_any d [''pain'', ''injury'', ''bleeding'', ''fever'']
      \<and> contains_any d [''appointment'', ''consultation'', ''check-up'']
      \<longrightarrow> determine_urgency d = ''medium'') \<and>
   (\<not> contains_any d [''emergency'', ''urgent'', ''critical'', ''severe'', ''life-threatening'']
      \<and> \<not> contains_any d [''pain'', ''injury'', ''bleeding'', ''fever'']
      \<and> \<not> contains_any d [''appointment'', ''consultation'', ''check-up'']
      \<longrightarrow> determine_urgency d = ''low'')"
  by (simp add: determine_urgency_def contains_any_any_in Let_def)

theorem determine_urgency_first_match_witness:
  "(contains_any ''URGENT: fever, need a check-up''
      [''emergency'', ''urgent'', ''critical'', ''severe'', ''life-threatening'']
    \<and> contains_any ''URGENT: fever, need a check-up'' [''pain'', ''injury'', ''bleeding'', ''fever'']
    \<and> contains_any ''URGENT: fever, need a check-up''
        [''appointment'', ''consultation'', ''check-up'']
    \<and> determine_urgency ''URGENT: fever, need a check-up'' = ''critical'')
   \<and> (contains_any ''Bleeding; book a Consultation'' [''pain'', ''injury'', ''bleeding'', ''fever'']
    \<and> determine_urgency ''Bleeding; book a Consultation'' = ''high'')
   \<and> (contains_any ''Annual Check-Up'' [''appointment'', ''consultation'', ''check-up'']
    \<and> determine_urgency ''Annual Check-Up'' = ''medium'')
   \<and> determine_urgency ''Renew my licence'' = ''low''"
proof -
  have c1: "contains_any ''URGENT: fever, need a check-up''
      [''emergency'', ''urgent'', ''critical'', ''severe'', ''life-threatening'']"
    unfolding contains_any_any_in by code_simp
  have c2: "contains_any ''URGENT: fever, need a check-up''
      [''pain'', ''injury'', ''bleeding'', ''fever'']"
    unfolding contains_any_any_in by code_simp
  have c3: "contains_any ''URGENT: fever, need a check-up''
      [''appointment'', ''consultation'', ''check-up'']"
    unfolding contains_any_any_in by code_simp
  have h1: "\<not> contains_any ''Bleeding; book a Consultation''
      [''emergency'', ''urgent'', ''critical'', ''severe'', ''life-threatening'']"
    unfolding contains_any_any_in by code_simp
  have h2: "contains_any ''Bleeding; book a Consultation''
      [''pain'', ''injury'', ''bleeding'', ''fever'']"
    unfolding contains_any_any_in by code_simp
  have m1: "\<not> contains_any ''Annual Check-Up''
      [''emergency'', ''urgent'', ''critical'', ''severe'', ''life-threatening'']"
    unfolding contains_any_any_in by code_simp
  have m2: "\<not> contains_any ''Annual Check-Up'' [''pain'', ''injury'', ''bleeding'', ''fever'']"
    unfolding contains_any_any_in by code_simp
  have m3: "contains_any ''Annual Check-Up'' [''appointment'', ''consultation'', ''check-up'']"
    unfolding contains_any_any_in by code_simp
  have l1: "\<not> contains_any ''Renew my licence''
      [''emergency'', ''urgent'', ''critical'', ''severe'', ''life-threatening'']"
    unfolding contains_any_any_in by code_simp
  have l2: "\<not> contains_any ''Renew my licence'' [''pain'', ''injury'', ''bleeding'', ''fever'']"
    unfolding contains_any_any_in by code_simp
  have l3: "\<not> contains_any ''Renew my licence''
      [''appointment'', ''consultation'', ''check-up'']"
    unfolding contains_any_any_in by code_simp
  from determine_urgency_first_match [of "''URGENT: fever, need a check-up''"] c1
  have r1: "determine_urgency ''URGENT: fever, need a check-up'' = ''critical''"
    by blast
  from determine_urgency_first_match [of "''Bleeding; book a Consultation''"] h1 h2
  have r2: "determine_urgency ''Bleeding; book a Consultation'' = ''high''"
    by blast
  from determine_urgency_first_match [of "''Annual Check-Up''"] m1 m2 m3
  have r3: "determine_urgency ''Annual Check-Up'' = ''medium''"
    by blast
  from determine_urgency_first_match [of "''Renew my licence''"] l1 l2 l3
  have r4: "determine_urgency ''Renew my licence'' = ''low''"
    by blast
  from c1 c2 c3 h2 m3 r1 r2 r3 r4 show ?thesis
    by blast
qed

text \<open>
  Claim C9, as the code has it. The description "I need to schedule my annual health
  checkup" is classified low, not medium: the keyword "check-up" is not a segment of
  it, and no other keyword is; with the hyphen, "... health check-up", the same
  sentence is medium.
\<close>

theorem checkup_without_hyphen_is_low:
  "determine_urgency ''I need to schedule my annual health checkup'' = ''low''
   \<and> \<not> py_in ''check-up'' (lower ''I need to schedule my annual health checkup'')
   \<and> py_in ''check-up'' (lower ''I need to schedule my annual health check-up'')
   \<and> determine_urgency ''I need to schedule my annual health check-up'' = ''medium''"
  by code_simp

text \<open>Claim C9 as stated fails: the description is not classified medium.\<close>

theorem checkup_medium_counterexample:
  "determine_urgency ''I need to schedule my annual health checkup'' \<noteq> ''medium''"
  by code_simp

section \<open>The error condition\<close>

text \<open>
  Claim C1, as the code has it. The compiled graph has only unconditional edges and
  nothing reads \<open>error_message\<close>. A handler that changes it has committed nothing and
  has changed no other field of the state, so \<open>current_status\<close> stays what it was; the
  run goes on with the next handler of the path, called with the same database and
  with the state that was returned, and from there as that handler decides.
\<close>

theorem error_message_not_inspected:
  assumes "node now name db_session state = Inr (db', state')"
    and "error_message state' \<noteq> error_message state"
  shows "db' = db_session
         \<and> state' = state\<lparr>error_message := error_message state'\<rparr>
         \<and> current_status state' = current_status state
         \<and> run_nodes now (name # next_name # names) db_session state
             = (case node now next_name db_session state' of
                  Inl e \<Rightarrow> ([name, next_name], db_session, Inl e)
                | Inr (db_next, state_next) \<Rightarrow>
                    (case run_nodes now names db_next state_next of
                       (called, db_final, result) \<Rightarrow>
                         (name # next_name # called, db_final, result)))"
proof -
  from node_sets_error [OF assms]
  have frame: "db' = db_session" "state' = state\<lparr>error_message := error_message state'\<rparr>"
    by simp_all
  from frame(2)
  have "current_status state' = current_status (state\<lparr>error_message := error_message state'\<rparr>)"
    by simp
  then have status: "current_status state' = current_status state"
    by simp
  from assms(1) frame(1)
  have run: "run_nodes now (name # next_name # names) db_session state
             = (case node now next_name db_session state' of
                  Inl e \<Rightarrow> ([name, next_name], db_session, Inl e)
                | Inr (db_next, state_next) \<Rightarrow>
                    (case run_nodes now names db_next state_next of
                       (called, db_final, result) \<Rightarrow>
                         (name # next_name # called, db_final, result)))"
    by (simp split: sum.splits prod.splits)
  from frame status run show ?thesis
    by blast
qed

text \<open>
  On the sample after Triage, Guidance sets the error condition and Booking, called
  with the state Guidance returned, overwrites it; the status stays "triaged" and the
  run ends with the \<open>TypeError\<close> of Followup.
\<close>

theorem error_message_not_inspected_witness:
  "node 0 ''guidance'' triaged_db triaged_state
     = Inr (triaged_db,
            triaged_state\<lparr>error_message := Some ''No available services for social''\<rparr>)
   \<and> error_message triaged_state = None
   \<and> current_status
        (triaged_state\<lparr>error_message := Some ''No available services for social''\<rparr>)
       = ''triaged''
   \<and> node 0 ''booking'' triaged_db
        (triaged_state\<lparr>error_message := Some ''No available services for social''\<rparr>)
     = Inr (triaged_db, triaged_state\<lparr>error_message := Some ''Service not found''\<rparr>)
   \<and> run_nodes 0 [''guidance'', ''booking'', ''followup'', ''equity''] triaged_db triaged_state
     = ([''guidance'', ''booking'', ''followup''], triaged_db,
        Inl (TypeError (quoted ''NoneType'' @ '' object is not subscriptable'')))
   \<and> run_nodes 0 [''booking'', ''followup'', ''equity''] triaged_db
        (triaged_state\<lparr>error_message := Some ''No available services for social''\<rparr>)
     = ([''booking'', ''followup''], triaged_db,
        Inl (TypeError (quoted ''NoneType'' @ '' object is not subscriptable'')))"
proof -
  let ?failed = "triaged_state\<lparr>error_message := Some ''No available services for social''\<rparr>"
  let ?unfound = "triaged_state\<lparr>error_message := Some ''Service not found''\<rparr>"
  have g: "node 0 ''guidance'' triaged_db triaged_state = Inr (triaged_db, ?failed)"
    by (simp add: node_def guidance_sample)
  have g0: "error_message triaged_state = None"
    by (simp add: triaged_state_def initial_state_def)
  then have g1: "error_message ?failed \<noteq> error_message triaged_state"
    by simp
  have b: "node 0 ''booking'' triaged_db ?failed = Inr (triaged_db, ?unfound)"
    by (simp add: node_def book_appointment_def triage_estimated_duration_def Let_def
        triaged_state_def initial_state_def)
  have b1: "error_message ?unfound \<noteq> error_message ?failed"
    by simp
  have f: "node 0 ''followup'' triaged_db ?unfound
      = Inl (TypeError (quoted ''NoneType'' @ '' object is not subscriptable''))"
    by (simp add: node_def send_confirmation_def generate_confirmation_message_def
        triaged_state_def initial_state_def)
  have s: "current_status triaged_state = ''triaged''"
    by (simp add: triaged_state_def)
  from error_message_not_inspected [OF b b1, of "''followup''" "[''equity'']"] f
  have r2: "run_nodes 0 [''booking'', ''followup'', ''equity''] triaged_db ?failed
     = ([''booking'', ''followup''], triaged_db,
        Inl (TypeError (quoted ''NoneType'' @ '' object is not subscriptable'')))"
    by simp
  from error_message_not_inspected [OF g g1, of "''booking''" "[''followup'', ''equity'']"] b f
  have r1: "current_status ?failed = current_status triaged_state"
    "run_nodes 0 [''guidance'', ''booking'', ''followup'', ''equity''] triaged_db triaged_state
     = ([''guidance'', ''booking'', ''followup''], triaged_db,
        Inl (TypeError (quoted ''NoneType'' @ '' object is not subscriptable'')))"
    by simp_all
  from g g0 b r1 r2 s show ?thesis
    by simp
qed

text \<open>
  Claim C1 as stated fails on case 1 of the sample: Guidance sets the error condition,
  yet Booking and Followup are called, the run ends with the \<open>TypeError\<close> that Followup
  raises, and the status is not "failed".
\<close>

theorem halt_on_error_counterexample:
  "run_nodes 0 [''triage'', ''guidance''] sample_db
       (initial_state (sample_case 1 ''Urgent housing help'') sample_citizen 1 False)
     = ([''triage'', ''guidance''], triaged_db,
        Inr (triaged_state\<lparr>error_message := Some ''No available services for social''\<rparr>))
   \<and> ainvoke 0 sample_db
       (initial_state (sample_case 1 ''Urgent housing help'') sample_citizen 1 False)
     = ([''triage'', ''guidance'', ''booking'', ''followup''], triaged_db,
        Inl (TypeError (quoted ''NoneType'' @ '' object is not subscriptable'')))
   \<and> current_status
        (triaged_state\<lparr>error_message := Some ''No available services for social''\<rparr>)
       \<noteq> ''failed''"
proof -
  have rest: "run_nodes 0 [''booking'', ''followup'', ''equity''] triaged_db
       (triaged_state\<lparr>error_message := Some ''No available services for social''\<rparr>)
     = ([''booking'', ''followup''], triaged_db,
        Inl (TypeError (quoted ''NoneType'' @ '' object is not subscriptable'')))"
    by (rule after_guidance_error [of _ "''critical''" "''social''" 60
          "''Automated triage: critical priority, social service needed''"])
       (simp_all add: triaged_state_def initial_state_def)
  have s: "current_status triaged_state = ''triaged''"
    by (simp add: triaged_state_def)
  from triage_sample guidance_sample rest s show ?thesis
    by (simp add: ainvoke_def workflow_def node_def)
qed

section \<open>The status of a completed run\<close>

text \<open>
  Claim C2, as the code has it. When the run of an existing case returns a final state
  and no error condition is set in it, all five stage handlers were called and the
  outcome reports success with final status "scheduled", the status that Booking set:
  no handler assigns "completed".
\<close>

theorem completed_run_reports_scheduled:
  assumes "find (\<lambda>c. cs_id c = cid) (cases db_session) = Some case_row"
    and "find (\<lambda>z. cz_id z = cs_citizen_id case_row) (citizens db_session) = Some citizen"
    and "ainvoke now db_session (initial_state case_row citizen cid offline)
           = (called, db', Inr final)"
    and "error_message final = None"
  shows "called = workflow
         \<and> current_status final = ''scheduled''
         \<and> outcome_field ''success'' (snd (snd (process_case now db_session cid offline)))
             = Some (PBool True)
         \<and> outcome_field ''final_status'' (snd (snd (process_case now db_session cid offline)))
             = Some (PStr ''scheduled'')"
proof -
  from assms(3) have run: "run_nodes now workflow db_session
      (initial_state case_row citizen cid offline) = (called, db', Inr final)"
    by (simp add: ainvoke_def)
  from completed_run_status [OF run assms(4)]
  have st: "called = workflow" "current_status final = ''scheduled''"
    by simp_all
  from assms(1,2,3) st(2)
  have "outcome_field ''success'' (snd (snd (process_case now db_session cid offline)))
          = Some (PBool True)"
    and "outcome_field ''final_status'' (snd (snd (process_case now db_session cid offline)))
          = Some (PStr ''scheduled'')"
    by (simp_all add: process_case_def)
  with st show ?thesis
    by simp
qed

text \<open>
  The run of case 2 of the sample calls the five handlers, sets no error condition and
  reports "scheduled".
\<close>

theorem completed_run_reports_scheduled_witness:
  "find (\<lambda>c. cs_id c = 2) (cases sample_db) = Some (sample_case 2 ''I need housing benefits'')
   \<and> find (\<lambda>z. cz_id z = cs_citizen_id (sample_case 2 ''I need housing benefits''))
         (citizens sample_db) = Some sample_citizen
   \<and> fst completed_run = workflow
   \<and> error_message (projr (snd (snd completed_run))) = None
   \<and> current_status (projr (snd (snd completed_run))) = ''scheduled''
   \<and> outcome_field ''final_status'' (snd (snd (process_case 0 sample_db 2 False)))
       = Some (PStr ''scheduled'')"
proof -
  have h1: "find (\<lambda>c. cs_id c = 2) (cases sample_db)
      = Some (sample_case 2 ''I need housing benefits'')"
    by code_simp
  have h2: "find (\<lambda>z. cz_id z = cs_citizen_id (sample_case 2 ''I need housing benefits''))
         (citizens sample_db) = Some sample_citizen"
    by code_simp
  have h3: "ainvoke 0 sample_db
       (initial_state (sample_case 2 ''I need housing benefits'') sample_citizen 2 False)
     = (workflow, fst (snd completed_run), Inr (projr (snd (snd completed_run))))"
    using completed_run_sample by (simp add: completed_run_def)
  have h4: "error_message (projr (snd (snd completed_run))) = None"
    by code_simp
  from completed_run_sample have c: "fst completed_run = workflow"
    by (metis fst_conv)
  from completed_run_reports_scheduled [OF h1 h2 h3 h4] h1 h2 h4 c show ?thesis
    by simp
qed

text \<open>
  Claim C2 as stated fails on case 2 of the sample: the five handlers are called, no
  error condition is set, the outcome is a success, and its final status is not
  "completed".
\<close>

theorem completed_status_counterexample:
  "fst (process_case 0 sample_db 2 False) = workflow
   \<and> map_sum str_exn error_message (snd (snd completed_run)) = Inr None
   \<and> outcome_field ''success'' (snd (snd (process_case 0 sample_db 2 False)))
       = Some (PBool True)
   \<and> outcome_field ''final_status'' (snd (snd (process_case 0 sample_db 2 False)))
       \<noteq> Some (PStr ''completed'')"
  by code_simp

section \<open>Service matching\<close>

text \<open>
  Claim C4, as the code has it. With urgency high or critical, Guidance sets an error
  condition exactly when no service of the required type is flagged for emergencies;
  then the message is "No available services for" followed by the type, nothing is
  committed and no service is assigned. Otherwise it assigns the first service of the
  required type that is flagged for emergencies. In neither case is the pipeline
  halted: Booking is the next handler called.
\<close>

theorem guidance_emergency_only:
  assumes "urgency_level state = ''high'' \<or> urgency_level state = ''critical''"
    and "triage_service_type state = Inr service_type"
    and "ServiceType_of service_type = Inr ty"
    and "find (\<lambda>c. cs_id c = case_id state) (cases db_session) = Some case_row"
    and "error_message state = None"
  shows "\<exists>db' state'.
           match_service db_session state = Inr (db', state')
           \<and> (error_message state' \<noteq> None
                \<longleftrightarrow> filter (\<lambda>s. sv_type s = ty \<and> sv_is_emergency s) (services db_session) = [])
           \<and> (filter (\<lambda>s. sv_type s = ty \<and> sv_is_emergency s) (services db_session) = [] \<longrightarrow>
                error_message state' = Some (''No available services for '' @ service_type)
                \<and> db' = db_session
                \<and> assigned_service_id state' = assigned_service_id state)
           \<and> (filter (\<lambda>s. sv_type s = ty \<and> sv_is_emergency s) (services db_session) \<noteq> [] \<longrightarrow>
                (\<exists>selected others.
                   filter (\<lambda>s. sv_type s = ty \<and> sv_is_emergency s) (services db_session)
                     = selected # others
                   \<and> sv_is_emergency selected \<and> sv_type selected = ty
                   \<and> assigned_service_id state' = Some (sv_id selected)))
           \<and> take 2 (fst (run_nodes now (''guidance'' # ''booking'' # names) db_session state))
                = [''guidance'', ''booking'']"
proof -
  let ?flagged = "filter (\<lambda>s. sv_type s = ty \<and> sv_is_emergency s) (services db_session)"
  from assms(1) have m: "matching_services db_session (urgency_level state) ty = ?flagged"
    by (auto simp: matching_services_def Let_def)
  show ?thesis
  proof (cases ?flagged)
    case Nil
    with m assms have r: "match_service db_session state
        = Inr (db_session,
               state\<lparr>error_message := Some (''No available services for '' @ service_type)\<rparr>)"
      by (simp add: match_service_def Let_def)
    then have "node now ''guidance'' db_session state
        = Inr (db_session,
               state\<lparr>error_message := Some (''No available services for '' @ service_type)\<rparr>)"
      by (simp add: node_def)
    from run_nodes_next_called [OF this] r Nil show ?thesis
      by simp
  next
    case (Cons selected others)
    then have "selected \<in> set ?flagged"
      by simp
    then have sel: "sv_is_emergency selected" "sv_type selected = ty"
      by simp_all
    from Cons m assms obtain db' state'
      where r: "match_service db_session state = Inr (db', state')"
        and a: "assigned_service_id state' = Some (sv_id selected)"
        and e: "error_message state' = None"
      by (simp add: match_service_def Let_def)
    from r have "node now ''guidance'' db_session state = Inr (db', state')"
      by (simp add: node_def)
    from run_nodes_next_called [OF this] r a e sel Cons show ?thesis
      by simp
  qed
qed

text \<open>
  On the sample after Triage, a critical case that needs a social service: no social
  service is flagged, so the error condition is set; with a flagged shelter in the
  catalogue, that shelter is assigned.
\<close>

theorem guidance_emergency_only_witness:
  "(urgency_level triaged_state = ''high'' \<or> urgency_level triaged_state = ''critical'')
   \<and> triage_service_type triaged_state = Inr ''social''
   \<and> ServiceType_of ''social'' = Inr SOCIAL
   \<and> find (\<lambda>c. cs_id c = case_id triaged_state) (cases triaged_db) = Some (hd (cases triaged_db))
   \<and> find (\<lambda>c. cs_id c = case_id triaged_state) (cases crisis_db) = Some (hd (cases crisis_db))
   \<and> error_message triaged_state = None
   \<and> filter (\<lambda>s. sv_type s = SOCIAL \<and> sv_is_emergency s) (services triaged_db) = []
   \<and> match_service triaged_db triaged_state
       = Inr (triaged_db,
              triaged_state\<lparr>error_message := Some ''No available services for social''\<rparr>)
   \<and> map (\<lambda>s. sv_id s)
        (filter (\<lambda>s. sv_type s = SOCIAL \<and> sv_is_emergency s) (services crisis_db)) = [9]
   \<and> map_sum str_exn (\<lambda>r. assigned_service_id (snd r)) (match_service crisis_db triaged_state)
       = Inr (Some 9)
   \<and> take 2 (fst (run_nodes 0 [''guidance'', ''booking'', ''followup'', ''equity'']
                     triaged_db triaged_state))
       = [''guidance'', ''booking'']"
proof -
  have h1: "urgency_level triaged_state = ''high'' \<or> urgency_level triaged_state = ''critical''"
    by (simp add: triaged_state_def)
  have h2: "triage_service_type triaged_state = Inr ''social''"
    by code_simp
  have h3: "ServiceType_of ''social'' = Inr SOCIAL"
    by code_simp
  have h4: "find (\<lambda>c. cs_id c = case_id triaged_state) (cases triaged_db)
      = Some (hd (cases triaged_db))"
    by code_simp
  have h4': "find (\<lambda>c. cs_id c = case_id triaged_state) (cases crisis_db)
      = Some (hd (cases crisis_db))"
    by code_simp
  have h5: "error_message triaged_state = None"
    by (simp add: triaged_state_def initial_state_def)
  have e: "filter (\<lambda>s. sv_type s = SOCIAL \<and> sv_is_emergency s) (services triaged_db) = []"
    by code_simp
  have f: "map (\<lambda>s. sv_id s)
        (filter (\<lambda>s. sv_type s = SOCIAL \<and> sv_is_emergency s) (services crisis_db)) = [9]"
    by code_simp
  from guidance_emergency_only [OF h1 h2 h3 h4 h5, of 0 "[''followup'', ''equity'']"]
  have t: "take 2 (fst (run_nodes 0 [''guidance'', ''booking'', ''followup'', ''equity'']
                     triaged_db triaged_state)) = [''guidance'', ''booking'']"
    by blast
  from guidance_emergency_only [OF h1 h2 h3 h4' h5, of 0 "[]"] f
  have a: "map_sum str_exn (\<lambda>r. assigned_service_id (snd r)) (match_service crisis_db triaged_state)
       = Inr (Some 9)"
    by auto
  from h1 h2 h3 h4 h4' h5 e f t a guidance_sample show ?thesis
    by blast
qed

text \<open>
  Claim C4 as stated fails on case 3 of the sample, urgency high and type medical:
  no medical service is flagged, the only clinic is not selected, and the pipeline
  is not halted at Guidance: Booking and Followup are called and the outcome carries
  the \<open>TypeError\<close> of Followup.
\<close>

theorem guidance_halts_counterexample:
  "determine_urgency ''Fever and pain'' = ''high''
   \<and> determine_service_type ''Fever and pain'' = ''medical''
   \<and> filter (\<lambda>s. sv_type s = MEDICAL \<and> sv_is_emergency s) (services sample_db) = []
   \<and> fst (process_case 0 sample_db 3 False) = [''triage'', ''guidance'', ''booking'', ''followup'']
   \<and> outcome_field ''error'' (snd (snd (process_case 0 sample_db 3 False)))
       = Some (PStr (quoted ''NoneType'' @ '' object is not subscriptable''))"
  by code_simp

section \<open>Nothing is booked when Guidance fails\<close>

text \<open>
  Claim C5. When Guidance returns without an assigned service, the database after
  \<open>process_case\<close> is the one Triage committed: Guidance committed nothing, Booking
  finds no service and creates no appointment, Followup raises before it writes, and
  EquityTracking is not called. The appointments are those from before the run.
\<close>

theorem no_appointment_when_guidance_fails:
  assumes "find (\<lambda>c. cs_id c = cid) (cases db_session) = Some case_row"
    and "find (\<lambda>z. cz_id z = cs_citizen_id case_row) (citizens db_session) = Some citizen"
    and "analyze_case db_session (initial_state case_row citizen cid offline) = Inr (db1, state1)"
    and "match_service db1 state1 = Inr (db2, state2)"
    and "assigned_service_id state2 = None"
  shows "process_case now db_session cid offline
           = ([''triage'', ''guidance'', ''booking'', ''followup''], db1,
              Inr [(''success'', PBool False),
                   (''error'', PStr (quoted ''NoneType'' @ '' object is not subscriptable'')),
                   (''case_id'', PInt cid)])
         \<and> db2 = db1
         \<and> appointments db1 = appointments db_session"
proof -
  from match_service_result [OF assms(4)] assms(5)
  obtain service_type where g: "db2 = db1"
    "state2 = state1\<lparr>error_message := Some (''No available services for '' @ service_type)\<rparr>"
    by auto
  from match_service_triage_output [OF assms(4)]
  obtain u s d n where out: "map_of (agent_outputs state1) ''triage'' = Some (TriageOutput u s d n)"
    by blast
  from analyze_case_frame [OF assms(3)]
  have fr: "assigned_service_id state1 = None" "appointment_details state1 = None"
    "appointments db1 = appointments db_session"
    by (simp_all add: initial_state_def)
  from out fr g(2) have rest:
    "run_nodes now [''booking'', ''followup'', ''equity''] db1 state2
       = ([''booking'', ''followup''], db1,
          Inl (TypeError (quoted ''NoneType'' @ '' object is not subscriptable'')))"
    by (intro after_guidance_error [of _ u s d n]) simp_all
  from assms(3,4) g(1) rest
  have "ainvoke now db_session (initial_state case_row citizen cid offline)
          = ([''triage'', ''guidance'', ''booking'', ''followup''], db1,
             Inl (TypeError (quoted ''NoneType'' @ '' object is not subscriptable'')))"
    by (simp add: ainvoke_def workflow_def node_def)
  with assms(1,2) have "process_case now db_session cid offline
           = ([''triage'', ''guidance'', ''booking'', ''followup''], db1,
              Inr [(''success'', PBool False),
                   (''error'', PStr (quoted ''NoneType'' @ '' object is not subscriptable'')),
                   (''case_id'', PInt cid)])"
    by (simp add: process_case_def)
  with g(1) fr(3) show ?thesis
    by simp
qed

text \<open>
  Case 1 of the sample: Guidance assigns no service and the appointments table stays
  empty.
\<close>

theorem no_appointment_when_guidance_fails_witness:
  "analyze_case sample_db
       (initial_state (sample_case 1 ''Urgent housing help'') sample_citizen 1 False)
     = Inr (triaged_db, triaged_state)
   \<and> match_service triaged_db triaged_state
       = Inr (triaged_db,
              triaged_state\<lparr>error_message := Some ''No available services for social''\<rparr>)
   \<and> assigned_service_id
        (triaged_state\<lparr>error_message := Some ''No available services for social''\<rparr>) = None
   \<and> process_case 0 sample_db 1 False
       = ([''triage'', ''guidance'', ''booking'', ''followup''], triaged_db,
          Inr [(''success'', PBool False),
               (''error'', PStr (quoted ''NoneType'' @ '' object is not subscriptable'')),
               (''case_id'', PInt 1)])
   \<and> appointments triaged_db = []"
proof -
  have h5: "assigned_service_id
        (triaged_state\<lparr>error_message := Some ''No available services for social''\<rparr>) = None"
    by (simp add: triaged_state_def initial_state_def)
  have a: "appointments sample_db = []"
    by (simp add: sample_db_def)
  from no_appointment_when_guidance_fails
         [OF find_sample_case_1 find_sample_citizen_1 triage_sample guidance_sample h5, of 0]
    triage_sample guidance_sample h5 a
  show ?thesis
    by simp
qed

section \<open>Delivery to subscribers\<close>

text \<open>
  Claim C6 does not hold of the code. With sockets 1 and 2 subscribed to case 1 and
  socket 1 closed, \<open>send_case_update\<close> takes socket 1 out of \<open>active_connections\<close> only,
  leaves it in the subscribers of the case, delivers nothing to socket 2 and ends with
  the \<open>TypeError\<close> of awaiting \<open>None\<close>; the background task of the case ends with the
  same exception.
\<close>

theorem failed_delivery_stops_broadcast:
  "send_case_update socket_1_closed sample_manager 1
       (PDict [(''type'', PStr ''case_processed''), (''case_id'', PInt 1)])
     = (sample_manager\<lparr>active_connections := [2]\<rparr>, [],
        Some (TypeError (''object NoneType can'' @ [CHR 0x27] @ ''t be used in ''
                           @ quoted ''await'' @ '' expression'')))
   \<and> map_of (case_subscribers (sample_manager\<lparr>active_connections := [2]\<rparr>)) 1 = Some [1, 2]
   \<and> process_case_async 0 socket_1_closed sample_db sample_manager 1
     = (triaged_db, sample_manager\<lparr>active_connections := [2]\<rparr>, [],
        Some (TypeError (''object NoneType can'' @ [CHR 0x27] @ ''t be used in ''
                           @ quoted ''await'' @ '' expression'')))"
  by code_simp

section \<open>Exceptions in a stage\<close>

text \<open>
  Claim C7. When a stage handler raises during the run of an existing case, the run
  ends with that exception, raised by the handler called last; \<open>process_case\<close> catches
  it and returns the dictionary with success false, the message of the exception and
  the case id.
\<close>

theorem stage_exception_becomes_failure:
  assumes "find (\<lambda>c. cs_id c = cid) (cases db_session) = Some case_row"
    and "find (\<lambda>z. cz_id z = cs_citizen_id case_row) (citizens db_session) = Some citizen"
    and "ainvoke now db_session (initial_state case_row citizen cid offline)
           = (called, db', Inl e)"
  shows "process_case now db_session cid offline
           = (called, db',
              Inr [(''success'', PBool False),
                   (''error'', PStr (str_exn e)),
                   (''case_id'', PInt cid)])
         \<and> called \<noteq> []
         \<and> (\<exists>state_k. node now (last called) db' state_k = Inl e)"
proof -
  from assms(3) have "run_nodes now workflow db_session
      (initial_state case_row citizen cid offline) = (called, db', Inl e)"
    by (simp add: ainvoke_def)
  from run_nodes_raised [OF this]
  have "called \<noteq> [] \<and> (\<exists>state_k. node now (last called) db' state_k = Inl e)" .
  with assms show ?thesis
    by (simp add: process_case_def)
qed

text \<open>
  Case 1 of the sample: Followup raises \<open>TypeError\<close> and \<open>process_case\<close> returns the
  failure dictionary with its message.
\<close>

theorem stage_exception_becomes_failure_witness:
  "find (\<lambda>c. cs_id c = 1) (cases sample_db) = Some (sample_case 1 ''Urgent housing help'')
   \<and> find (\<lambda>z. cz_id z = cs_citizen_id (sample_case 1 ''Urgent housing help''))
        (citizens sample_db) = Some sample_citizen
   \<and> ainvoke 0 sample_db
        (initial_state (sample_case 1 ''Urgent housing help'') sample_citizen 1 False)
       = ([''triage'', ''guidance'', ''booking'', ''followup''], triaged_db,
          Inl (TypeError (quoted ''NoneType'' @ '' object is not subscriptable'')))
   \<and> process_case 0 sample_db 1 False
       = ([''triage'', ''guidance'', ''booking'', ''followup''], triaged_db,
          Inr [(''success'', PBool False),
               (''error'', PStr (quoted ''NoneType'' @ '' object is not subscriptable'')),
               (''case_id'', PInt 1)])"
  using stage_exception_becomes_failure
          [OF find_sample_case_1 find_sample_citizen_1 failed_run_sample]
    find_sample_case_1 find_sample_citizen_1 failed_run_sample
  by simp

section \<open>Demand metrics\<close>

text \<open>
  Claim C8, as the code has it. With an assigned service id other than 0 the equity
  stage succeeds, leaves the error condition alone and changes the metric rows only.
  If a row of the service is dated at or after the midnight that begins today, the
  first such row in storage order gets its count raised by 1 and every other row stays
  as it is; the demand of the service summed over the rows dated at or after that
  midnight rises by exactly 1, and so does the counter for the service and today when
  no row of the service is dated on a later day. If there is no such row, one row is
  appended, with count 1 and dated by the clock of the database; when that clock reads
  an instant of today, the sum and the counter for today both rise by exactly 1.
  Without an assigned service the database stays as it was.
\<close>

theorem track_metrics_counts:
  "(assigned_service_id state = Some sid \<and> sid \<noteq> 0 \<longrightarrow>
      (\<exists>db' state'.
         track_metrics now db_session state = Inr (db', state')
         \<and> error_message state' = error_message state
         \<and> db' = db_session\<lparr>system_metrics := system_metrics db'\<rparr>
         \<and> ((\<exists>m \<in> set (system_metrics db_session).
                sm_service_id m = Some sid \<and> date_of now \<le> sm_date m) \<longrightarrow>
              (\<exists>before m after.
                 system_metrics db_session = before @ m # after
                 \<and> sm_service_id m = Some sid \<and> date_of now \<le> sm_date m
                 \<and> (\<forall>x \<in> set before. \<not> (sm_service_id x = Some sid \<and> date_of now \<le> sm_date x))
                 \<and> system_metrics db'
                     = before @ m\<lparr>sm_demand_count := sm_demand_count m + 1\<rparr> # after)
              \<and> demand_since db' sid (date_of now)
                  = demand_since db_session sid (date_of now) + 1
              \<and> (no_later_rows db_session sid (date_of now) \<longrightarrow>
                   demand_counter db' sid (date_of now)
                     = demand_counter db_session sid (date_of now) + 1))
         \<and> (\<not> (\<exists>m \<in> set (system_metrics db_session).
                  sm_service_id m = Some sid \<and> date_of now \<le> sm_date m) \<longrightarrow>
              system_metrics db'
                = system_metrics db_session
                    @ [\<lparr>sm_service_id = Some sid,
                        sm_date = usec_per_second * current_timestamp db_session,
                        sm_demand_count = 1\<rparr>]
              \<and> (date_of (usec_per_second * current_timestamp db_session) = date_of now \<longrightarrow>
                   demand_since db' sid (date_of now)
                     = demand_since db_session sid (date_of now) + 1
                   \<and> demand_counter db' sid (date_of now)
                       = demand_counter db_session sid (date_of now) + 1))))
   \<and> (assigned_service_id state = None \<longrightarrow>
        (\<exists>state'. track_metrics now db_session state = Inr (db_session, state')
           \<and> error_message state' = error_message state))"
proof (intro conjI impI)
  assume a: "assigned_service_id state = Some sid \<and> sid \<noteq> 0"
  then have a1: "assigned_service_id state = Some sid" and a2: "sid \<noteq> 0"
    by simp_all
  let ?rows = "system_metrics db_session"
  let ?P = "metric_matches (Some sid) (date_of now)"
  let ?g = "\<lambda>m. m\<lparr>sm_demand_count := sm_demand_count m + 1\<rparr>"
  let ?state = "state\<lparr>agent_outputs :=
                        dict_set ''equity'' (EquityOutput True [Isoformat now])
                          (agent_outputs state)\<rparr>"
  let ?new = "\<lparr>sm_service_id = Some sid,
               sm_date = usec_per_second * current_timestamp db_session,
               sm_demand_count = 1\<rparr>"
  let ?goal = "\<lambda>db' state'.
         track_metrics now db_session state = Inr (db', state')
         \<and> error_message state' = error_message state
         \<and> db' = db_session\<lparr>system_metrics := system_metrics db'\<rparr>
         \<and> ((\<exists>m \<in> set (system_metrics db_session).
                sm_service_id m = Some sid \<and> date_of now \<le> sm_date m) \<longrightarrow>
              (\<exists>before m after.
                 system_metrics db_session = before @ m # after
                 \<and> sm_service_id m = Some sid \<and> date_of now \<le> sm_date m
                 \<and> (\<forall>x \<in> set before. \<not> (sm_service_id x = Some sid \<and> date_of now \<le> sm_date x))
                 \<and> system_metrics db'
                     = before @ m\<lparr>sm_demand_count := sm_demand_count m + 1\<rparr> # after)
              \<and> demand_since db' sid (date_of now)
                  = demand_since db_session sid (date_of now) + 1
              \<and> (no_later_rows db_session sid (date_of now) \<longrightarrow>
                   demand_counter db' sid (date_of now)
                     = demand_counter db_session sid (date_of now) + 1))
         \<and> (\<not> (\<exists>m \<in> set (system_metrics db_session).
                  sm_service_id m = Some sid \<and> date_of now \<le> sm_date m) \<longrightarrow>
              system_metrics db'
                = system_metrics db_session
                    @ [\<lparr>sm_service_id = Some sid,
                        sm_date = usec_per_second * current_timestamp db_session,
                        sm_demand_count = 1\<rparr>]
              \<and> (date_of (usec_per_second * current_timestamp db_session) = date_of now \<longrightarrow>
                   demand_since db' sid (date_of now)
                     = demand_since db_session sid (date_of now) + 1
                   \<and> demand_counter db' sid (date_of now)
                       = demand_counter db_session sid (date_of now) + 1))"
  show "\<exists>db' state'. ?goal db' state'"
  proof (cases "find ?P ?rows")
    case None
    then have no: "\<not> (\<exists>m \<in> set ?rows. sm_service_id m = Some sid \<and> date_of now \<le> sm_date m)"
      by (simp add: find_metric_Some)
    let ?db = "db_session\<lparr>system_metrics := ?rows @ [?new]\<rparr>"
    have r: "track_metrics now db_session state = Inr (?db, ?state)"
      by (rule track_metrics_created [OF a1 a2 None])
    have sums: "date_of (usec_per_second * current_timestamp db_session) = date_of now \<longrightarrow>
        demand_since ?db sid (date_of now) = demand_since db_session sid (date_of now) + 1
        \<and> demand_counter ?db sid (date_of now)
            = demand_counter db_session sid (date_of now) + 1"
      using demand_created [of db_session now sid] by blast
    have f2: "error_message ?state = error_message state"
      by simp
    have f3: "?db = db_session\<lparr>system_metrics := system_metrics ?db\<rparr>"
      by simp
    have f4: "(\<exists>m \<in> set (system_metrics db_session).
                sm_service_id m = Some sid \<and> date_of now \<le> sm_date m) \<longrightarrow>
              (\<exists>before m after.
                 system_metrics db_session = before @ m # after
                 \<and> sm_service_id m = Some sid \<and> date_of now \<le> sm_date m
                 \<and> (\<forall>x \<in> set before. \<not> (sm_service_id x = Some sid \<and> date_of now \<le> sm_date x))
                 \<and> system_metrics ?db
                     = before @ m\<lparr>sm_demand_count := sm_demand_count m + 1\<rparr> # after)
              \<and> demand_since ?db sid (date_of now)
                  = demand_since db_session sid (date_of now) + 1
              \<and> (no_later_rows db_session sid (date_of now) \<longrightarrow>
                   demand_counter ?db sid (date_of now)
                     = demand_counter db_session sid (date_of now) + 1)"
      using no by blast
    have f5: "\<not> (\<exists>m \<in> set (system_metrics db_session).
                  sm_service_id m = Some sid \<and> date_of now \<le> sm_date m) \<longrightarrow>
              system_metrics ?db
                = system_metrics db_session
                    @ [\<lparr>sm_service_id = Some sid,
                        sm_date = usec_per_second * current_timestamp db_session,
                        sm_demand_count = 1\<rparr>]
              \<and> (date_of (usec_per_second * current_timestamp db_session) = date_of now \<longrightarrow>
                   demand_since ?db sid (date_of now)
                     = demand_since db_session sid (date_of now) + 1
                   \<and> demand_counter ?db sid (date_of now)
                       = demand_counter db_session sid (date_of now) + 1)"
      using sums by simp
    have "?goal ?db ?state"
      using r f2 f3 f4 f5 by (intro conjI) assumption+
    then show ?thesis
      by blast
  next
    case (Some m)
    then have yes: "\<exists>m \<in> set ?rows. sm_service_id m = Some sid \<and> date_of now \<le> sm_date m"
      using find_metric_Some [of ?rows sid "date_of now"] by blast
    let ?db = "db_session\<lparr>system_metrics := update_first ?P ?g ?rows\<rparr>"
    have r: "track_metrics now db_session state = Inr (?db, ?state)"
      by (rule track_metrics_found [OF a1 a2 Some])
    from update_first_split [OF Some, of ?g]
    obtain before after
      where "?rows = before @ m # after" "?P m" "\<forall>x \<in> set before. \<not> ?P x"
        "update_first ?P ?g ?rows = before @ ?g m # after"
      by blast
    then have split: "\<exists>before m after.
                 ?rows = before @ m # after
                 \<and> sm_service_id m = Some sid \<and> date_of now \<le> sm_date m
                 \<and> (\<forall>x \<in> set before. \<not> (sm_service_id x = Some sid \<and> date_of now \<le> sm_date x))
                 \<and> system_metrics ?db
                     = before @ m\<lparr>sm_demand_count := sm_demand_count m + 1\<rparr> # after"
      by (auto simp: metric_matches_def)
    have since: "demand_since ?db sid (date_of now)
        = demand_since db_session sid (date_of now) + 1"
      by (rule demand_since_incremented [OF Some])
    have counter: "no_later_rows db_session sid (date_of now) \<longrightarrow>
        demand_counter ?db sid (date_of now) = demand_counter db_session sid (date_of now) + 1"
      using demand_counter_incremented [OF Some] by blast
    have f2: "error_message ?state = error_message state"
      by simp
    have f3: "?db = db_session\<lparr>system_metrics := system_metrics ?db\<rparr>"
      by simp
    have f4: "(\<exists>m \<in> set (system_metrics db_session).
                sm_service_id m = Some sid \<and> date_of now \<le> sm_date m) \<longrightarrow>
              (\<exists>before m after.
                 system_metrics db_session = before @ m # after
                 \<and> sm_service_id m = Some sid \<and> date_of now \<le> sm_date m
                 \<and> (\<forall>x \<in> set before. \<not> (sm_service_id x = Some sid \<and> date_of now \<le> sm_date x))
                 \<and> system_metrics ?db
                     = before @ m\<lparr>sm_demand_count := sm_demand_count m + 1\<rparr> # after)
              \<and> demand_since ?db sid (date_of now)
                  = demand_since db_session sid (date_of now) + 1
              \<and> (no_later_rows db_session sid (date_of now) \<longrightarrow>
                   demand_counter ?db sid (date_of now)
                     = demand_counter db_session sid (date_of now) + 1)"
      using split since counter by blast
    have f5: "\<not> (\<exists>m \<in> set (system_metrics db_session).
                  sm_service_id m = Some sid \<and> date_of now \<le> sm_date m) \<longrightarrow>
              system_metrics ?db
                = system_metrics db_session
                    @ [\<lparr>sm_service_id = Some sid,
                        sm_date = usec_per_second * current_timestamp db_session,
                        sm_demand_count = 1\<rparr>]
              \<and> (date_of (usec_per_second * current_timestamp db_session) = date_of now \<longrightarrow>
                   demand_since ?db sid (date_of now)
                     = demand_since db_session sid (date_of now) + 1
                   \<and> demand_counter ?db sid (date_of now)
                       = demand_counter db_session sid (date_of now) + 1)"
      using yes by blast
    have "?goal ?db ?state"
      using r f2 f3 f4 f5 by (intro conjI) assumption+
    then show ?thesis
      by blast
  qed
next
  assume "assigned_service_id state = None"
  then show "\<exists>state'. track_metrics now db_session state = Inr (db_session, state')
           \<and> error_message state' = error_message state"
    by (simp add: track_metrics_def Let_def)
qed

text \<open>
  At an instant of day 1, service 8 has two rows dated today: the first goes from 5 to
  6, the counter for today from 8 to 9. Service 5 has no row: the row created is dated
  today by the database, and the counter for today goes from 0 to 1. A state without
  assigned service changes nothing.
\<close>

theorem track_metrics_counts_witness:
  "assigned_service_id (triaged_state\<lparr>assigned_service_id := Some 8\<rparr>) = Some 8
   \<and> (8::int) \<noteq> 0
   \<and> no_later_rows metrics_db 8 (date_of (usec_per_day + 10))
   \<and> demand_counter metrics_db 8 (date_of (usec_per_day + 10)) = 8
   \<and> demand_counter
        (committed metrics_db
           (track_metrics (usec_per_day + 10) metrics_db
              (triaged_state\<lparr>assigned_service_id := Some 8\<rparr>)))
        8 (date_of (usec_per_day + 10)) = 9
   \<and> map sm_demand_count
        (system_metrics
           (committed metrics_db
              (track_metrics (usec_per_day + 10) metrics_db
                 (triaged_state\<lparr>assigned_service_id := Some 8\<rparr>)))) = [5, 6, 3]
   \<and> date_of (usec_per_second * current_timestamp metrics_db) = date_of (usec_per_day + 10)
   \<and> demand_counter metrics_db 5 (date_of (usec_per_day + 10)) = 0
   \<and> demand_counter
        (committed metrics_db
           (track_metrics (usec_per_day + 10) metrics_db
              (triaged_state\<lparr>assigned_service_id := Some 5\<rparr>)))
        5 (date_of (usec_per_day + 10)) = 1
   \<and> assigned_service_id triaged_state = None
   \<and> committed metrics_db (track_metrics (usec_per_day + 10) metrics_db triaged_state)
       = metrics_db"
proof -
  have h1: "assigned_service_id (triaged_state\<lparr>assigned_service_id := Some 8\<rparr>) = Some 8
              \<and> (8::int) \<noteq> 0"
    by simp
  have h2: "no_later_rows metrics_db 8 (date_of (usec_per_day + 10))"
    unfolding day_1
    by (simp add: no_later_rows_def metrics_db_def date_of_def usec_per_day_def
        usec_per_hour_def)
  have h3: "\<exists>m \<in> set (system_metrics metrics_db).
      sm_service_id m = Some 8 \<and> date_of (usec_per_day + 10) \<le> sm_date m"
    unfolding day_1 by (simp add: metrics_db_def)
  have c8: "demand_counter metrics_db 8 (date_of (usec_per_day + 10)) = 8"
    unfolding day_1
    by (simp add: demand_counter_def metrics_db_def date_of_def usec_per_day_def
        usec_per_hour_def)
  have rows: "map sm_demand_count
        (system_metrics
           (committed metrics_db
              (track_metrics (usec_per_day + 10) metrics_db
                 (triaged_state\<lparr>assigned_service_id := Some 8\<rparr>)))) = [5, 6, 3]"
    by (simp add: track_metrics_def metric_matches_def metrics_db_def Let_def date_of_def
        usec_per_day_def usec_per_hour_def)
  have k1: "assigned_service_id (triaged_state\<lparr>assigned_service_id := Some 5\<rparr>) = Some 5
              \<and> (5::int) \<noteq> 0"
    by simp
  have k2: "\<not> (\<exists>m \<in> set (system_metrics metrics_db).
      sm_service_id m = Some 5 \<and> date_of (usec_per_day + 10) \<le> sm_date m)"
    by (simp add: metrics_db_def)
  have k3: "date_of (usec_per_second * current_timestamp metrics_db)
      = date_of (usec_per_day + 10)"
    unfolding day_1
    by (simp add: metrics_db_def date_of_def usec_per_second_def usec_per_day_def
        usec_per_hour_def)
  have c5: "demand_counter metrics_db 5 (date_of (usec_per_day + 10)) = 0"
    by (simp add: demand_counter_def metrics_db_def)
  have n: "assigned_service_id triaged_state = None"
    by (simp add: triaged_state_def initial_state_def)
  from track_metrics_counts
         [of "triaged_state\<lparr>assigned_service_id := Some 8\<rparr>" 8 "usec_per_day + 10" metrics_db]
    h1 h2 h3 c8
  have r8: "demand_counter
        (committed metrics_db
           (track_metrics (usec_per_day + 10) metrics_db
              (triaged_state\<lparr>assigned_service_id := Some 8\<rparr>)))
        8 (date_of (usec_per_day + 10)) = 9"
    by auto
  from track_metrics_counts
         [of "triaged_state\<lparr>assigned_service_id := Some 5\<rparr>" 5 "usec_per_day + 10" metrics_db]
    k1 k2 k3 c5
  have r5: "demand_counter
        (committed metrics_db
           (track_metrics (usec_per_day + 10) metrics_db
              (triaged_state\<lparr>assigned_service_id := Some 5\<rparr>)))
        5 (date_of (usec_per_day + 10)) = 1"
    by auto
  from track_metrics_counts [of triaged_state 0 "usec_per_day + 10" metrics_db] n
  have r0: "committed metrics_db (track_metrics (usec_per_day + 10) metrics_db triaged_state)
       = metrics_db"
    by auto
  from h1 h2 c8 r8 rows k3 c5 r5 n r0 show ?thesis
    by blast
qed

text \<open>
  Claim C8 as stated fails on the metric rows. Service 7 has no row for today and one
  dated tomorrow: the stage increments that one, so the counter for today stays 0 and
  no row is created. In the last microsecond of day 0, with the clock of the database
  already at day 1, the row created for service 5 is dated on day 1 and the counter for
  day 0 stays 0. With the assigned service id 0 nothing is written at all.
\<close>

theorem track_metrics_counterexample:
  "demand_counter metrics_db 7 (date_of (usec_per_day + 10)) = 0
   \<and> demand_counter
        (committed metrics_db
           (track_metrics (usec_per_day + 10) metrics_db
              (triaged_state\<lparr>assigned_service_id := Some 7\<rparr>)))
        7 (date_of (usec_per_day + 10)) = 0
   \<and> map sm_demand_count
        (system_metrics
           (committed metrics_db
              (track_metrics (usec_per_day + 10) metrics_db
                 (triaged_state\<lparr>assigned_service_id := Some 7\<rparr>)))) = [6, 5, 3]
   \<and> demand_counter metrics_db 5 (date_of (usec_per_day - 1)) = 0
   \<and> demand_counter
        (committed metrics_db
           (track_metrics (usec_per_day - 1) metrics_db
              (triaged_state\<lparr>assigned_service_id := Some 5\<rparr>)))
        5 (date_of (usec_per_day - 1)) = 0
   \<and> committed metrics_db
        (track_metrics (usec_per_day + 10) metrics_db
           (triaged_state\<lparr>assigned_service_id := Some 0\<rparr>)) = metrics_db"
  by (simp add: demand_counter_def track_metrics_def metric_matches_def
      metrics_db_def Let_def date_of_def usec_per_second_def usec_per_day_def usec_per_hour_def)

section \<open>A case that does not exist\<close>

text \<open>
  Claim C10, as the code has it. When no case row has the given id and the id is an
  SQLite INTEGER, \<open>process_case\<close> returns exactly the dictionary with the one entry
  "error": "Case not found", which has no success flag, no case id and no final
  status; it calls no stage handler and leaves the database as it was. For an id
  outside the 64-bit range the first query raises \<open>OverflowError\<close> to the caller, again
  before any handler or write. Every dictionary returned for a case that exists has a
  success flag and the case id, and it has a final status exactly when the success
  flag is true.
\<close>

theorem process_case_not_found:
  "(find (\<lambda>c. cs_id c = cid) (cases db_session) = None \<and> sqlite_integer cid \<longrightarrow>
      process_case now db_session cid offline
        = ([], db_session, Inr [(''error'', PStr ''Case not found'')])
      \<and> map_of [(''error'', PStr ''Case not found'')] ''success'' = None
      \<and> map_of [(''error'', PStr ''Case not found'')] ''case_id'' = None
      \<and> map_of [(''error'', PStr ''Case not found'')] ''final_status'' = None)
   \<and> (find (\<lambda>c. cs_id c = cid) (cases db_session) = None \<and> \<not> sqlite_integer cid \<longrightarrow>
        process_case now db_session cid offline
          = ([], db_session,
             Inl (OverflowError ''Python int too large to convert to SQLite INTEGER'')))
   \<and> (find (\<lambda>c. cs_id c = cid) (cases db_session) \<noteq> None
        \<and> snd (snd (process_case now db_session cid offline)) = Inr outcome \<longrightarrow>
      map_of outcome ''success'' \<noteq> None
      \<and> map_of outcome ''case_id'' = Some (PInt cid)
      \<and> (map_of outcome ''final_status'' \<noteq> None
           \<longleftrightarrow> map_of outcome ''success'' = Some (PBool True)))"
  by (auto simp: process_case_def split: option.splits prod.splits sum.splits)

text \<open>
  Case 9 is not in the sample: the one-entry dictionary comes back, no handler is
  called and the database is untouched. The id \<open>2 ^ 63\<close> raises. The dictionary
  returned for case 1 carries the case id and no final status.
\<close>

theorem process_case_not_found_witness:
  "find (\<lambda>c. cs_id c = 9) (cases sample_db) = None
   \<and> sqlite_integer 9
   \<and> process_case 0 sample_db 9 False
       = ([], sample_db, Inr [(''error'', PStr ''Case not found'')])
   \<and> find (\<lambda>c. cs_id c = 2 ^ 63) (cases sample_db) = None
   \<and> \<not> sqlite_integer (2 ^ 63)
   \<and> process_case 0 sample_db (2 ^ 63) False
       = ([], sample_db,
          Inl (OverflowError ''Python int too large to convert to SQLite INTEGER''))
   \<and> find (\<lambda>c. cs_id c = 1) (cases sample_db) \<noteq> None
   \<and> map_of [(''success'', PBool False),
              (''error'', PStr (quoted ''NoneType'' @ '' object is not subscriptable'')),
              (''case_id'', PInt 1)] ''case_id'' = Some (PInt 1)
   \<and> map_of [(''success'', PBool False),
              (''error'', PStr (quoted ''NoneType'' @ '' object is not subscriptable'')),
              (''case_id'', PInt 1)] ''final_status'' = None"
proof -
  have h1: "find (\<lambda>c. cs_id c = 9) (cases sample_db) = None \<and> sqlite_integer 9"
    by (simp add: sample_db_def sample_case_def sqlite_integer_def)
  have o1: "find (\<lambda>c. cs_id c = 2 ^ 63) (cases sample_db) = None \<and> \<not> sqlite_integer (2 ^ 63)"
    by (simp add: sample_db_def sample_case_def sqlite_integer_def)
  have h2: "find (\<lambda>c. cs_id c = 1) (cases sample_db) \<noteq> None"
    by (simp add: find_sample_case_1)
  have h3: "snd (snd (process_case 0 sample_db 1 False))
      = Inr [(''success'', PBool False),
              (''error'', PStr (quoted ''NoneType'' @ '' object is not subscriptable'')),
              (''case_id'', PInt 1)]"
    using find_sample_case_1 find_sample_citizen_1 failed_run_sample
    by (simp add: process_case_def)
  from process_case_not_found [of 9 sample_db 0 False] h1
  have r1: "process_case 0 sample_db 9 False
       = ([], sample_db, Inr [(''error'', PStr ''Case not found'')])"
    by blast
  from process_case_not_found [of "2 ^ 63" sample_db 0 False] o1
  have r2: "process_case 0 sample_db (2 ^ 63) False
       = ([], sample_db,
          Inl (OverflowError ''Python int too large to convert to SQLite INTEGER''))"
    by blast
  from process_case_not_found [of 1 sample_db 0 False
      "[(''success'', PBool False),
        (''error'', PStr (quoted ''NoneType'' @ '' object is not subscriptable'')),
        (''case_id'', PInt 1)]"] h2 h3
  have r3: "map_of [(''success'', PBool False),
              (''error'', PStr (quoted ''NoneType'' @ '' object is not subscriptable'')),
              (''case_id'', PInt 1)] ''case_id'' = Some (PInt 1)"
    by blast
  have r4: "map_of [(''success'', PBool False),
              (''error'', PStr (quoted ''NoneType'' @ '' object is not subscriptable'')),
              (''case_id'', PInt 1)] ''final_status'' = None"
    by simp
  from h1 o1 h2 r1 r2 r3 r4 show ?thesis
    by blast
qed

text \<open>
  Claim C10 as stated fails twice: the id \<open>2 ^ 63\<close> resolves to no case row and
  \<open>process_case\<close> raises instead of returning the dictionary; and the failure outcome of
  case 1 has no final status either.
\<close>

theorem process_case_not_found_counterexample:
  "find (\<lambda>c. cs_id c = 2 ^ 63) (cases sample_db) = None
   \<and> process_case 0 sample_db (2 ^ 63) False
       \<noteq> ([], sample_db, Inr [(''error'', PStr ''Case not found'')])
   \<and> snd (snd (process_case 0 sample_db (2 ^ 63) False))
       = Inl (OverflowError ''Python int too large to convert to SQLite INTEGER'')
   \<and> outcome_field ''success'' (snd (snd (process_case 0 sample_db 1 False)))
       = Some (PBool False)
   \<and> outcome_field ''final_status'' (snd (snd (process_case 0 sample_db 1 False))) = None"
proof -
  have a: "find (\<lambda>c. cs_id c = 2 ^ 63) (cases sample_db) = None"
    by (simp add: sample_db_def sample_case_def)
  have b: "\<not> sqlite_integer (2 ^ 63)"
    by (simp add: sqlite_integer_def)
  have c: "snd (snd (process_case 0 sample_db 1 False))
      = Inr [(''success'', PBool False),
              (''error'', PStr (quoted ''NoneType'' @ '' object is not subscriptable'')),
              (''case_id'', PInt 1)]"
    using find_sample_case_1 find_sample_citizen_1 failed_run_sample
    by (simp add: process_case_def)
  from a b c show ?thesis
    by (simp add: process_case_def)
qed

end
